theory Spec2Isabelle
  imports Complex_Main "HOL-Library.Word" "HOL-Library.Char_ord" "HOL-Library.List_Lexorder"
    "HOL-Library.AList"
begin

unbundle bit_operations_syntax

section \<open>JavaScript values used by the quality service\<close>

text \<open>
  The service \<^verbatim>\<open>QualityService\<close> of \<^verbatim>\<open>src/cache/quality.service.ts\<close> works on
  strings, on values that are a string or \<^verbatim>\<open>null\<close>/\<^verbatim>\<open>undefined\<close>, on plain
  objects with string keys and on numbers.

  \<^item> A JavaScript string is modelled as a \<^typ>\<open>string\<close>, a list of 8-bit characters.
    The model is exact for ASCII text, which is what the attribute names and the usual
    parameter values are made of; other text is read as its UTF-8 bytes.
  \<^item> A value that is a string, \<^verbatim>\<open>null\<close> or \<^verbatim>\<open>undefined\<close> is a
    \<^typ>\<open>string option\<close>; \<^verbatim>\<open>null\<close> and \<^verbatim>\<open>undefined\<close> are both \<^term>\<open>None\<close>
    (the service never tells them apart).
  \<^item> A plain object is an association list in the order in which its properties were
    created, which is the order \<^verbatim>\<open>Object.keys\<close> and \<^verbatim>\<open>JSON.stringify\<close> follow for
    keys that are not array indices. Reading a property is \<^term>\<open>map_of\<close>, assigning one
    is \<^term>\<open>AList.update\<close> (in place when the key exists, appended otherwise).
  \<^item> An exception is a value of type \<open>exn\<close>; code that can throw returns a sum.
\<close>

datatype exn = TypeError

definition truthy :: "string option \<Rightarrow> bool" where
  \<comment> \<open>ToBoolean: \<^verbatim>\<open>null\<close>, \<^verbatim>\<open>undefined\<close> and the empty string are falsy.\<close>
  "truthy v = (case v of None \<Rightarrow> False | Some s \<Rightarrow> s \<noteq> [])"

definition js_or :: "string option \<Rightarrow> string option \<Rightarrow> string option" where
  \<comment> \<open>\<^verbatim>\<open>a || b\<close>\<close>
  "js_or a b = (if truthy a then a else b)"

section \<open>The platform's URL parser\<close>

text \<open>
  \<^verbatim>\<open>new URL(url)\<close> and \<^verbatim>\<open>url.searchParams\<close> belong to the platform, not to the
  repository. The extractor below therefore takes the parser as an argument \<open>URL\<close>: a
  function from the input string to either the exception it throws or the list of
  name/value pairs of the query, in the order of the query.

  \<open>new_URL\<close> is a model of that parser after the URL standard, used where a concrete
  input is evaluated. It follows the standard for an input without base URL in the steps
  that matter here: the input is stripped of leading and trailing C0 controls and spaces
  and of all tabs and newlines; the scheme start state and the scheme state read a letter
  followed by letters, digits, \<open>+\<close>, \<open>-\<close> and \<open>.\<close> up to a colon, and every other
  input ends in the no scheme state, which fails since there is no base URL; the query is
  the text between the first \<open>?\<close> and the first \<open>#\<close>; the search parameters are the
  query split at \<open>&\<close>, empty pieces dropped, each piece split at its first \<open>=\<close>, with
  \<open>+\<close> read as a space and percent escapes decoded. The validation of host and port is
  not part of the model, so it is only evaluated on inputs without a scheme and on URLs
  with a plain host name.
\<close>

type_synonym URLSearchParams = "(string \<times> string) list"

definition params_get :: "URLSearchParams \<Rightarrow> string \<Rightarrow> string option" where
  \<comment> \<open>\<^verbatim>\<open>params.get(name)\<close>: the value of the first pair with that name, or \<^verbatim>\<open>null\<close>.\<close>
  "params_get params name = map_of params name"

definition c0_control_or_space :: "char \<Rightarrow> bool" where
  "c0_control_or_space c = ((of_char c :: nat) \<le> 0x20)"

definition ascii_tab_or_newline :: "char \<Rightarrow> bool" where
  "ascii_tab_or_newline c = (c = CHR 0x09 \<or> c = CHR 0x0A \<or> c = CHR 0x0D)"

definition url_preprocess :: "string \<Rightarrow> string" where
  "url_preprocess s =
     filter (\<lambda>c. \<not> ascii_tab_or_newline c)
       (rev (dropWhile c0_control_or_space (rev (dropWhile c0_control_or_space s))))"

definition ascii_alpha :: "char \<Rightarrow> bool" where
  "ascii_alpha c = (let n = (of_char c :: nat) in (0x41 \<le> n \<and> n \<le> 0x5A) \<or> (0x61 \<le> n \<and> n \<le> 0x7A))"

definition ascii_digit :: "char \<Rightarrow> bool" where
  "ascii_digit c = (let n = (of_char c :: nat) in 0x30 \<le> n \<and> n \<le> 0x39)"

definition scheme_char :: "char \<Rightarrow> bool" where
  "scheme_char c = (ascii_alpha c \<or> ascii_digit c \<or> c = CHR ''+'' \<or> c = CHR ''-'' \<or> c = CHR ''.'')"

definition split_scheme :: "string \<Rightarrow> (string \<times> string) option" where
  \<comment> \<open>scheme start state, scheme state and no scheme state, without base URL\<close>
  "split_scheme s =
     (case s of
        [] \<Rightarrow> None
      | c # r \<Rightarrow>
          if \<not> ascii_alpha c then None
          else (case dropWhile scheme_char r of
                  [] \<Rightarrow> None
                | d # rest \<Rightarrow> if d = CHR '':'' then Some (c # takeWhile scheme_char r, rest) else None))"

definition url_query :: "string \<Rightarrow> string" where
  "url_query rest =
     (case dropWhile (\<lambda>c. c \<noteq> CHR ''?'') (takeWhile (\<lambda>c. c \<noteq> CHR ''#'') rest) of
        [] \<Rightarrow> []
      | _ # q \<Rightarrow> q)"

fun split_on :: "char \<Rightarrow> string \<Rightarrow> string list" where
  "split_on sep [] = [[]]"
| "split_on sep (c # r) =
     (if c = sep then [] # split_on sep r
      else (case split_on sep r of [] \<Rightarrow> [[c]] | p # ps \<Rightarrow> (c # p) # ps))"

definition hex_value :: "char \<Rightarrow> nat option" where
  "hex_value c =
     (let n = (of_char c :: nat) in
      if 0x30 \<le> n \<and> n \<le> 0x39 then Some (n - 0x30)
      else if 0x41 \<le> n \<and> n \<le> 0x46 then Some (n - 0x41 + 10)
      else if 0x61 \<le> n \<and> n \<le> 0x66 then Some (n - 0x61 + 10)
      else None)"

fun percent_decode :: "string \<Rightarrow> string" where
  "percent_decode (c # h # l # r) =
     (if c = CHR ''%'' then
        (case (hex_value h, hex_value l) of
           (Some a, Some b) \<Rightarrow> char_of (16 * a + b) # percent_decode r
         | _ \<Rightarrow> c # percent_decode (h # l # r))
      else c # percent_decode (h # l # r))"
| "percent_decode s = s"

definition urlencoded_decode :: "string \<Rightarrow> string" where
  "urlencoded_decode s = percent_decode (map (\<lambda>c. if c = CHR ''+'' then CHR '' '' else c) s)"

definition urlencoded_parse :: "string \<Rightarrow> URLSearchParams" where
  "urlencoded_parse query =
     map (\<lambda>piece. (urlencoded_decode (takeWhile (\<lambda>c. c \<noteq> CHR ''='') piece),
                   urlencoded_decode (drop 1 (dropWhile (\<lambda>c. c \<noteq> CHR ''='') piece))))
       (filter (\<lambda>piece. piece \<noteq> []) (split_on CHR ''&'' query))"

definition new_URL :: "string \<Rightarrow> exn + URLSearchParams" where
  "new_URL url =
     (case split_scheme (url_preprocess url) of
        None \<Rightarrow> Inl TypeError
      | Some (scheme, rest) \<Rightarrow> Inr (urlencoded_parse (url_query rest)))"

section \<open>The quality descriptor and the extractor\<close>

text \<open>
  Modelled from the spec: the interface \<^verbatim>\<open>QualityInfo\<close> of
  \<^verbatim>\<open>src/cache/interfaces/quality-info.interface.ts\<close> is not among the sources. The
  spec describes it as a sparse mapping from attribute names to string values, and the
  service reads and writes it as a plain object with string keys, so a descriptor is an
  association list of name/value pairs in the order of their creation.
\<close>

type_synonym QualityInfo = "(string \<times> string) list"

definition quality_literal :: "URLSearchParams \<Rightarrow> (string \<times> string option) list" where
  \<comment> \<open>the object literal of \<^verbatim>\<open>extractQualityFromUrl\<close>, with its \<^verbatim>\<open>undefined\<close> entries\<close>
  "quality_literal params =
   [(''maxVideoBitrate'', js_or (js_or (params_get params ''maxVideoBitrate'') (params_get params ''MaxVideoBitrate'')) None),
    (''videoCodec'', js_or (js_or (params_get params ''videoCodec'') (params_get params ''VideoCodec'')) None),
    (''maxWidth'', js_or (js_or (params_get params ''maxWidth'') (params_get params ''MaxWidth'')) None),
    (''maxHeight'', js_or (js_or (params_get params ''maxHeight'') (params_get params ''MaxHeight'')) None),
    (''videoLevel'', js_or (js_or (params_get params ''videoLevel'') (params_get params ''VideoLevel'')) None),
    (''profile'', js_or (js_or (params_get params ''profile'') (params_get params ''Profile'')) None),
    (''maxFramerate'', js_or (js_or (params_get params ''maxFramerate'') (params_get params ''MaxFramerate'')) None),
    (''videoBitDepth'', js_or (js_or (params_get params ''videoBitDepth'') (params_get params ''VideoBitDepth'')) None),
    (''audioCodec'', js_or (js_or (params_get params ''audioCodec'') (params_get params ''AudioCodec'')) None),
    (''audioChannels'', js_or (js_or (params_get params ''audioChannels'') (params_get params ''AudioChannels'')) None),
    (''audioBitrate'', js_or (js_or (params_get params ''audioBitrate'') (params_get params ''AudioBitrate'')) None),
    (''audioSampleRate'', js_or (js_or (params_get params ''audioSampleRate'') (params_get params ''AudioSampleRate'')) None),
    (''container'', js_or (js_or (params_get params ''container'') (params_get params ''Container'')) None),
    (''segmentContainer'', js_or (js_or (params_get params ''segmentContainer'') (params_get params ''SegmentContainer'')) None),
    (''subtitleCodec'', js_or (js_or (params_get params ''subtitleCodec'') (params_get params ''SubtitleCodec'')) None),
    (''audioStreamIndex'', js_or (params_get params ''audioStreamIndex'') None),
    (''subtitleStreamIndex'', js_or (params_get params ''subtitleStreamIndex'') None),
    (''audioLanguage'', js_or (params_get params ''audioLanguage'') None),
    (''subtitleLanguage'', js_or (params_get params ''subtitleLanguage'') None),
    (''maxAudioChannels'', js_or (params_get params ''maxAudioChannels'') None),
    (''transcodingMaxAudioChannels'', js_or (params_get params ''transcodingMaxAudioChannels'') None),
    (''subtitleMethod'', js_or (params_get params ''subtitleMethod'') None),
    (''startTimeTicks'', js_or (params_get params ''startTimeTicks'') None),
    (''mediaSourceId'', js_or (params_get params ''MediaSourceId'') None),
    (''deviceId'', js_or (params_get params ''DeviceId'') None),
    (''playSessionId'', js_or (params_get params ''PlaySessionId'') None)]"

fun delete_undefined :: "(string \<times> string option) list \<Rightarrow> QualityInfo" where
  \<comment> \<open>the loop that deletes every key whose value is \<^verbatim>\<open>undefined\<close>\<close>
  "delete_undefined [] = []"
| "delete_undefined ((key, None) # obj) = delete_undefined obj"
| "delete_undefined ((key, Some v) # obj) = (key, v) # delete_undefined obj"

definition extract_try :: "(string \<Rightarrow> exn + URLSearchParams) \<Rightarrow> string \<Rightarrow> exn + QualityInfo" where
  \<comment> \<open>the body of the \<^verbatim>\<open>try\<close> block\<close>
  "extract_try URL url =
     (case URL url of
        Inl error \<Rightarrow> Inl error
      | Inr params \<Rightarrow> Inr (delete_undefined (quality_literal params)))"

definition extractQualityFromUrl :: "(string \<Rightarrow> exn + URLSearchParams) \<Rightarrow> string \<Rightarrow> exn + QualityInfo" where
  \<comment> \<open>\<^verbatim>\<open>catch (error)\<close> logs the message and returns the empty object\<close>
  "extractQualityFromUrl URL url =
     (case extract_try URL url of
        Inl error \<Rightarrow> Inr []
      | Inr qualityInfo \<Rightarrow> Inr qualityInfo)"

section \<open>Canonical form and hash\<close>

definition session_keys :: "string list" where
  \<comment> \<open>the keys that \<^verbatim>\<open>generateQualityHash\<close> skips\<close>
  "session_keys = [''deviceId'', ''playSessionId'', ''mediaSourceId'']"

definition sortedQuality :: "QualityInfo \<Rightarrow> (string \<times> string option) list" where
  \<comment> \<open>\<^verbatim>\<open>Object.keys(qualityInfo).sort()\<close> compares the keys code unit by code unit, as the
      lexicographic order on \<^typ>\<open>string\<close> does; the \<^verbatim>\<open>forEach\<close> assigns every key
      outside the list to the new object.\<close>
  "sortedQuality qualityInfo =
     fold (\<lambda>key obj. if key \<notin> set session_keys
                       then AList.update key (map_of qualityInfo key) obj else obj)
       (sort (map fst qualityInfo)) []"

definition hex_digit :: "nat \<Rightarrow> char" where
  "hex_digit n = (if n < 10 then char_of (0x30 + n) else char_of (0x57 + n))"

definition json_escape :: "char \<Rightarrow> string" where
  \<comment> \<open>QuoteJSONString, one code unit\<close>
  "json_escape c =
     (if c = CHR 0x08 then [CHR 0x5C, CHR ''b'']
      else if c = CHR 0x09 then [CHR 0x5C, CHR ''t'']
      else if c = CHR 0x0A then [CHR 0x5C, CHR ''n'']
      else if c = CHR 0x0C then [CHR 0x5C, CHR ''f'']
      else if c = CHR 0x0D then [CHR 0x5C, CHR ''r'']
      else if c = CHR 0x22 then [CHR 0x5C, CHR 0x22]
      else if c = CHR 0x5C then [CHR 0x5C, CHR 0x5C]
      else if (of_char c :: nat) < 0x20
        then [CHR 0x5C, CHR ''u'', CHR ''0'', CHR ''0'',
              hex_digit ((of_char c :: nat) div 16), hex_digit ((of_char c :: nat) mod 16)]
      else [c])"

definition json_quote :: "string \<Rightarrow> string" where
  "json_quote s = [CHR 0x22] @ concat (map json_escape s) @ [CHR 0x22]"

fun json_members :: "(string \<times> string option) list \<Rightarrow> string list" where
  \<comment> \<open>a property whose value is \<^verbatim>\<open>undefined\<close> is left out\<close>
  "json_members [] = []"
| "json_members ((key, None) # obj) = json_members obj"
| "json_members ((key, Some v) # obj) = (json_quote key @ '':'' @ json_quote v) # json_members obj"

fun join :: "string \<Rightarrow> string list \<Rightarrow> string" where
  \<comment> \<open>\<^verbatim>\<open>Array.prototype.join\<close>\<close>
  "join sep [] = []"
| "join sep [x] = x"
| "join sep (x # y # r) = x @ sep @ join sep (y # r)"

definition JSON_stringify :: "(string \<times> string option) list \<Rightarrow> string" where
  "JSON_stringify obj = ''{'' @ join '','' (json_members obj) @ ''}''"

text \<open>
  \<^verbatim>\<open>createHash('md5')\<close> is the platform's MD5; the model follows RFC 1321. The string
  is hashed as its UTF-8 bytes, which for the characters of the model are the characters
  themselves.
\<close>

type_synonym u8 = "8 word"
type_synonym u32 = "32 word"

definition md5_K :: "u32 list" where
  "md5_K =
    [0xd76aa478, 0xe8c7b756, 0x242070db, 0xc1bdceee, 0xf57c0faf, 0x4787c62a, 0xa8304613, 0xfd469501,
     0x698098d8, 0x8b44f7af, 0xffff5bb1, 0x895cd7be, 0x6b901122, 0xfd987193, 0xa679438e, 0x49b40821,
     0xf61e2562, 0xc040b340, 0x265e5a51, 0xe9b6c7aa, 0xd62f105d, 0x02441453, 0xd8a1e681, 0xe7d3fbc8,
     0x21e1cde6, 0xc33707d6, 0xf4d50d87, 0x455a14ed, 0xa9e3e905, 0xfcefa3f8, 0x676f02d9, 0x8d2a4c8a,
     0xfffa3942, 0x8771f681, 0x6d9d6122, 0xfde5380c, 0xa4beea44, 0x4bdecfa9, 0xf6bb4b60, 0xbebfbc70,
     0x289b7ec6, 0xeaa127fa, 0xd4ef3085, 0x04881d05, 0xd9d4d039, 0xe6db99e5, 0x1fa27cf8, 0xc4ac5665,
     0xf4292244, 0x432aff97, 0xab9423a7, 0xfc93a039, 0x655b59c3, 0x8f0ccc92, 0xffeff47d, 0x85845dd1,
     0x6fa87e4f, 0xfe2ce6e0, 0xa3014314, 0x4e0811a1, 0xf7537e82, 0xbd3af235, 0x2ad7d2bb, 0xeb86d391]"

definition md5_s :: "nat list" where
  "md5_s =
    [7, 12, 17, 22, 7, 12, 17, 22, 7, 12, 17, 22, 7, 12, 17, 22,
     5, 9, 14, 20, 5, 9, 14, 20, 5, 9, 14, 20, 5, 9, 14, 20,
     4, 11, 16, 23, 4, 11, 16, 23, 4, 11, 16, 23, 4, 11, 16, 23,
     6, 10, 15, 21, 6, 10, 15, 21, 6, 10, 15, 21, 6, 10, 15, 21]"

definition rotl32 :: "u32 \<Rightarrow> nat \<Rightarrow> u32" where
  "rotl32 x n = push_bit n x OR drop_bit (32 - n) x"

definition md5_round :: "u32 list \<Rightarrow> nat \<Rightarrow> u32 \<times> u32 \<times> u32 \<times> u32 \<Rightarrow> u32 \<times> u32 \<times> u32 \<times> u32" where
  "md5_round M i st =
     (case st of (a, b, c, d) \<Rightarrow>
        let (f, g) =
              (if i < 16 then ((b AND c) OR (NOT b AND d), i)
               else if i < 32 then ((d AND b) OR (NOT d AND c), (5 * i + 1) mod 16)
               else if i < 48 then (b XOR c XOR d, (3 * i + 5) mod 16)
               else (c XOR (b OR NOT d), (7 * i) mod 16));
            f' = f + a + md5_K ! i + M ! g
        in (d, b + rotl32 f' (md5_s ! i), b, c))"

fun le32 :: "u8 list \<Rightarrow> u32 list" where
  "le32 (b0 # b1 # b2 # b3 # bs) =
     (ucast b0 OR push_bit 8 (ucast b1) OR push_bit 16 (ucast b2) OR push_bit 24 (ucast b3)) # le32 bs"
| "le32 _ = []"

definition md5_block :: "u32 \<times> u32 \<times> u32 \<times> u32 \<Rightarrow> u8 list \<Rightarrow> u32 \<times> u32 \<times> u32 \<times> u32" where
  "md5_block st blk =
     (case st of (a0, b0, c0, d0) \<Rightarrow>
        case fold (md5_round (le32 blk)) [0..<64] st of (a, b, c, d) \<Rightarrow>
          (a0 + a, b0 + b, c0 + c, d0 + d))"

fun md5_blocks :: "nat \<Rightarrow> u32 \<times> u32 \<times> u32 \<times> u32 \<Rightarrow> u8 list \<Rightarrow> u32 \<times> u32 \<times> u32 \<times> u32" where
  "md5_blocks 0 st bs = st"
| "md5_blocks (Suc n) st bs = md5_blocks n (md5_block st (take 64 bs)) (drop 64 bs)"

definition le_bytes64 :: "64 word \<Rightarrow> u8 list" where
  "le_bytes64 w = map (\<lambda>i. ucast (drop_bit (8 * i) w)) [0..<8]"

definition md5_pad :: "u8 list \<Rightarrow> u8 list" where
  "md5_pad m =
     m @ [0x80] @ replicate ((119 - length m mod 64) mod 64) 0 @ le_bytes64 (of_nat (8 * length m))"

definition le_bytes32 :: "u32 \<Rightarrow> u8 list" where
  "le_bytes32 w = [ucast w, ucast (drop_bit 8 w), ucast (drop_bit 16 w), ucast (drop_bit 24 w)]"

definition md5 :: "u8 list \<Rightarrow> u8 list" where
  "md5 m =
     (let p = md5_pad m in
      case md5_blocks (length p div 64) (0x67452301, 0xefcdab89, 0x98badcfe, 0x10325476) p of
        (a, b, c, d) \<Rightarrow> le_bytes32 a @ le_bytes32 b @ le_bytes32 c @ le_bytes32 d)"

definition hex :: "u8 list \<Rightarrow> string" where
  \<comment> \<open>\<^verbatim>\<open>digest('hex')\<close>\<close>
  "hex bs = concat (map (\<lambda>b. [hex_digit (unat b div 16), hex_digit (unat b mod 16)]) bs)"

definition utf8 :: "string \<Rightarrow> u8 list" where
  "utf8 s = map (\<lambda>c. of_nat (of_char c)) s"

definition generateQualityHash :: "QualityInfo \<Rightarrow> string" where
  "generateQualityHash qualityInfo =
     (let qualityString = JSON_stringify (sortedQuality qualityInfo);
          hash = take 12 (hex (md5 (utf8 qualityString)))
      in hash)"

definition areQualitiesEqual :: "QualityInfo \<Rightarrow> QualityInfo \<Rightarrow> bool" where
  "areQualitiesEqual quality1 quality2 = (generateQualityHash quality1 = generateQualityHash quality2)"

section \<open>Numbers\<close>

text \<open>
  A JavaScript number is an IEEE 754 double. It is modelled as \<open>NaN\<close>, one of the two
  infinities, or the rational that a finite double stands for. \<open>to_double\<close> rounds an
  exact rational to the nearest double, a tie going to the even significand, a result
  from \<open>2 ^ 1024\<close> on being an infinity and a result below the smallest subnormal being
  zero; every arithmetic operation is the exact operation followed by this rounding, as
  the standard defines it. The sign of zero is not modelled (\<open>-0\<close> and \<open>0\<close> are equal
  for \<^verbatim>\<open>===\<close> and print alike).
\<close>

datatype number = NaN | Infinity | NegInfinity | Num rat

function bit_length :: "int \<Rightarrow> nat" where
  \<comment> \<open>the number of binary digits of a positive integer\<close>
  "bit_length n = (if n \<le> 0 then 0 else Suc (bit_length (n div 2)))"
  by pat_completeness auto
termination
  by (relation "measure nat") auto

definition pow2 :: "int \<Rightarrow> rat" where
  "pow2 e = 2 powi e"

definition floor_log2 :: "rat \<Rightarrow> int" where
  \<comment> \<open>for \<open>a > 0\<close>, the exponent \<open>e\<close> with \<open>2 ^ e \<le> a < 2 ^ (e + 1)\<close>\<close>
  "floor_log2 a =
     (let (p, q) = quotient_of a;
          e = int (bit_length p) - int (bit_length q)
      in if pow2 e \<le> a then e else e - 1)"

definition round_half_even :: "rat \<Rightarrow> int" where
  "round_half_even q =
     (let f = \<lfloor>q\<rfloor>; d = q - of_int f
      in if d < 1 / 2 then f else if 1 / 2 < d then f + 1 else if even f then f else f + 1)"

definition double_limit :: rat where
  \<comment> \<open>what a double does not reach\<close>
  "double_limit = 2 ^ 1024"

definition to_double_pos :: "rat \<Rightarrow> rat option" where
  \<comment> \<open>for \<open>a > 0\<close>: the nearest double with 53 bits of precision and an exponent
      from -1022 on; \<open>None\<close> when the result overflows\<close>
  "to_double_pos a =
     (let e = max (floor_log2 a) (- 1022);
          ulp = pow2 (e - 52);
          v = of_int (round_half_even (a / ulp)) * ulp
      in if v < double_limit then Some v else None)"

definition to_double :: "rat \<Rightarrow> number" where
  "to_double r =
     (if r = 0 then Num 0
      else if 0 < r then (case to_double_pos r of None \<Rightarrow> Infinity | Some v \<Rightarrow> Num v)
      else (case to_double_pos (- r) of None \<Rightarrow> NegInfinity | Some v \<Rightarrow> Num (- v)))"

fun num_sgn :: "number \<Rightarrow> int" where
  "num_sgn NaN = 0"
| "num_sgn Infinity = 1"
| "num_sgn NegInfinity = - 1"
| "num_sgn (Num a) = (if a = 0 then 0 else if 0 < a then 1 else - 1)"

fun num_add :: "number \<Rightarrow> number \<Rightarrow> number" where
  "num_add NaN y = NaN"
| "num_add x NaN = NaN"
| "num_add (Num a) (Num b) = to_double (a + b)"
| "num_add (Num a) y = y"
| "num_add x (Num b) = x"
| "num_add x y = (if x = y then x else NaN)"

fun num_mul :: "number \<Rightarrow> number \<Rightarrow> number" where
  "num_mul NaN y = NaN"
| "num_mul x NaN = NaN"
| "num_mul (Num a) (Num b) = to_double (a * b)"
| "num_mul x y =
     (if num_sgn x * num_sgn y = 0 then NaN
      else if 0 < num_sgn x * num_sgn y then Infinity else NegInfinity)"

fun num_div :: "number \<Rightarrow> number \<Rightarrow> number" where
  \<comment> \<open>a zero divisor counts as \<open>+0\<close>; the service only divides by non-zero literals\<close>
  "num_div NaN y = NaN"
| "num_div x NaN = NaN"
| "num_div (Num a) (Num b) =
     (if b = 0 then (if a = 0 then NaN else if 0 < a then Infinity else NegInfinity)
      else to_double (a / b))"
| "num_div (Num a) y = Num 0"
| "num_div x (Num b) =
     (if 0 \<le> b then x else if x = Infinity then NegInfinity else Infinity)"
| "num_div x y = NaN"

definition to_string :: "string option \<Rightarrow> string" where
  \<comment> \<open>ToString of a string or \<^verbatim>\<open>undefined\<close>, as a template literal and \<^verbatim>\<open>parseInt\<close> apply it\<close>
  "to_string v = (case v of None \<Rightarrow> ''undefined'' | Some s \<Rightarrow> s)"

definition white_space_length :: "string \<Rightarrow> nat" where
  \<comment> \<open>the length of the white space or line terminator that the string starts with, 0
      when there is none: the six of ASCII, and in UTF-8 U+00A0, U+1680, U+2000 to
      U+200A, U+2028, U+2029, U+202F, U+205F, U+3000 and U+FEFF; U+00A0 is also taken
      as the single character 0xA0\<close>
  "white_space_length s =
     (if take 1 s \<in> set [[CHR 0x09], [CHR 0x0A], [CHR 0x0B], [CHR 0x0C], [CHR 0x0D], [CHR 0x20],
                          [CHR 0xA0]] then 1
      else if take 2 s = [CHR 0xC2, CHR 0xA0] then 2
      else if take 3 s \<in> set
          [[CHR 0xE1, CHR 0x9A, CHR 0x80],
           [CHR 0xE2, CHR 0x80, CHR 0x80], [CHR 0xE2, CHR 0x80, CHR 0x81],
           [CHR 0xE2, CHR 0x80, CHR 0x82], [CHR 0xE2, CHR 0x80, CHR 0x83],
           [CHR 0xE2, CHR 0x80, CHR 0x84], [CHR 0xE2, CHR 0x80, CHR 0x85],
           [CHR 0xE2, CHR 0x80, CHR 0x86], [CHR 0xE2, CHR 0x80, CHR 0x87],
           [CHR 0xE2, CHR 0x80, CHR 0x88], [CHR 0xE2, CHR 0x80, CHR 0x89],
           [CHR 0xE2, CHR 0x80, CHR 0x8A], [CHR 0xE2, CHR 0x80, CHR 0xA8],
           [CHR 0xE2, CHR 0x80, CHR 0xA9], [CHR 0xE2, CHR 0x80, CHR 0xAF],
           [CHR 0xE2, CHR 0x81, CHR 0x9F], [CHR 0xE3, CHR 0x80, CHR 0x80],
           [CHR 0xEF, CHR 0xBB, CHR 0xBF]] then 3
      else 0)"

function skip_white_space :: "string \<Rightarrow> string" where
  "skip_white_space s =
     (if s = [] \<or> white_space_length s = 0 then s
      else skip_white_space (drop (white_space_length s) s))"
  by pat_completeness auto
termination
  by (relation "measure length") auto

definition digit_value :: "char \<Rightarrow> nat option" where
  \<comment> \<open>the value of a digit or letter in a radix up to 36\<close>
  "digit_value c =
     (let n = (of_char c :: nat) in
      if 0x30 \<le> n \<and> n \<le> 0x39 then Some (n - 0x30)
      else if 0x41 \<le> n \<and> n \<le> 0x5A then Some (n - 0x41 + 10)
      else if 0x61 \<le> n \<and> n \<le> 0x7A then Some (n - 0x61 + 10)
      else None)"

fun radix_digits :: "nat \<Rightarrow> string \<Rightarrow> nat list" where
  \<comment> \<open>the values of the longest prefix made of digits of radix \<open>R\<close>\<close>
  "radix_digits R [] = []"
| "radix_digits R (c # r) =
     (case digit_value c of
        None \<Rightarrow> []
      | Some d \<Rightarrow> if d < R then d # radix_digits R r else [])"

definition parseInt :: "string \<Rightarrow> number" where
  \<comment> \<open>\<^verbatim>\<open>parseInt(string)\<close> without radix: the integer that the digits denote, as a
      double (the language lets an implementation approximate a decimal integer beyond
      its 20th digit; the model rounds the exact integer, as V8 does)\<close>
  "parseInt inputString =
     (let S = skip_white_space inputString;
          sign = (if take 1 S = ''-'' then - 1 else 1 :: int);
          S = (if take 1 S = ''+'' \<or> take 1 S = ''-'' then drop 1 S else S);
          hexadecimal = (take 2 S = ''0x'' \<or> take 2 S = ''0X'');
          R = (if hexadecimal then 16 else 10 :: nat);
          S = (if hexadecimal then drop 2 S else S);
          Z = radix_digits R S
      in if Z = [] then NaN
         else to_double (of_int (sign * foldl (\<lambda>acc d. acc * int R + int d) 0 Z)))"

definition Math_round :: "number \<Rightarrow> number" where
  \<comment> \<open>\<^verbatim>\<open>Math.round\<close>: the nearest integer, a tie going up; an integer next to a double
      is a double itself\<close>
  "Math_round x = (case x of Num r \<Rightarrow> Num (of_int \<lfloor>r + 1 / 2\<rfloor>) | _ \<Rightarrow> x)"

fun nat_to_string :: "nat \<Rightarrow> string" where
  "nat_to_string n =
     (if n < 10 then [char_of (0x30 + n)]
      else nat_to_string (n div 10) @ [char_of (0x30 + n mod 10)])"

definition integer_to_string :: "number \<Rightarrow> string" where
  \<comment> \<open>ToString of a rounded number: the decimal digits of an integer. For an integer
      from \<open>2 ^ 53\<close> on JavaScript prints the shortest digits that denote the double,
      and from \<open>10 ^ 21\<close> on an exponent; these are not modelled.\<close>
  "integer_to_string x =
     (case x of
        NaN \<Rightarrow> ''NaN''
      | Infinity \<Rightarrow> ''Infinity''
      | NegInfinity \<Rightarrow> ''-Infinity''
      | Num r \<Rightarrow> if r < 0 then ''-'' @ nat_to_string (nat (- \<lfloor>r\<rfloor>)) else nat_to_string (nat \<lfloor>r\<rfloor>))"

section \<open>Description, score and metrics\<close>

definition toUpperCase :: "string \<Rightarrow> string" where
  \<comment> \<open>on ASCII letters; other characters are kept\<close>
  "toUpperCase s =
     map (\<lambda>c. if 0x61 \<le> (of_char c :: nat) \<and> (of_char c :: nat) \<le> 0x7A
               then char_of ((of_char c :: nat) - 32) else c) s"

definition getQualityDescription :: "QualityInfo \<Rightarrow> string" where
  "getQualityDescription qualityInfo =
     (let parts = [];
          parts =
            (if truthy (map_of qualityInfo ''maxWidth'') \<and> truthy (map_of qualityInfo ''maxHeight'')
             then parts @ [to_string (map_of qualityInfo ''maxWidth'') @ ''x''
                             @ to_string (map_of qualityInfo ''maxHeight'')]
             else parts);
          parts =
            (if truthy (map_of qualityInfo ''maxVideoBitrate'')
             then (let bitrateMbps =
                         Math_round (num_div (parseInt (to_string (map_of qualityInfo ''maxVideoBitrate'')))
                                       (Num 1000000))
                   in parts @ [integer_to_string bitrateMbps @ ''Mbps''])
             else parts);
          parts =
            (case map_of qualityInfo ''videoCodec'' of
               None \<Rightarrow> parts
             | Some videoCodec \<Rightarrow> if videoCodec \<noteq> [] then parts @ [toUpperCase videoCodec] else parts);
          parts =
            (case map_of qualityInfo ''audioCodec'' of
               None \<Rightarrow> parts
             | Some audioCodec \<Rightarrow>
                 if audioCodec \<noteq> [] then
                   (let audioPart = toUpperCase audioCodec;
                        audioPart =
                          (if truthy (map_of qualityInfo ''audioLanguage'')
                           then audioPart @ '' ('' @ to_string (map_of qualityInfo ''audioLanguage'') @ '')''
                           else audioPart);
                        audioPart =
                          (if truthy (map_of qualityInfo ''audioStreamIndex'')
                           then audioPart @ '' [Track '' @ to_string (map_of qualityInfo ''audioStreamIndex'') @ '']''
                           else audioPart)
                    in parts @ [audioPart])
                 else parts);
          parts =
            (if truthy (map_of qualityInfo ''subtitleStreamIndex'') \<or> truthy (map_of qualityInfo ''subtitleLanguage'')
             then (let subPart = ''Subs'';
                       subPart =
                         (if truthy (map_of qualityInfo ''subtitleLanguage'')
                          then subPart @ '' ('' @ to_string (map_of qualityInfo ''subtitleLanguage'') @ '')''
                          else subPart);
                       subPart =
                         (if truthy (map_of qualityInfo ''subtitleStreamIndex'')
                          then subPart @ '' [Track '' @ to_string (map_of qualityInfo ''subtitleStreamIndex'') @ '']''
                          else subPart)
                   in parts @ [subPart])
             else parts)
      in if length parts > 0 then join '' '' parts else ''Unknown Quality'')"

definition getQualityScore :: "QualityInfo \<Rightarrow> number" where
  "getQualityScore qualityInfo =
     (let score = Num 0;
          score =
            (if truthy (map_of qualityInfo ''maxVideoBitrate'')
             then num_add score
                    (num_div (parseInt (to_string (map_of qualityInfo ''maxVideoBitrate''))) (Num 1000))
             else score);
          score =
            (if truthy (map_of qualityInfo ''maxWidth'') \<and> truthy (map_of qualityInfo ''maxHeight'')
             then (let pixels = num_mul (parseInt (to_string (map_of qualityInfo ''maxWidth'')))
                                  (parseInt (to_string (map_of qualityInfo ''maxHeight'')))
                   in num_add score (num_div pixels (Num 1000)))
             else score);
          score =
            (if truthy (map_of qualityInfo ''audioBitrate'')
             then num_add score
                    (num_div (parseInt (to_string (map_of qualityInfo ''audioBitrate''))) (Num 10))
             else score)
      in score)"

text \<open>
  Modelled from the spec: the interface \<^verbatim>\<open>QualityMetrics\<close> is declared beside
  \<^verbatim>\<open>QualityInfo\<close> and is not among the sources; its three fields are those of the object
  that \<^verbatim>\<open>getQualityMetrics\<close> returns.
\<close>

record QualityMetrics =
  score :: number
  description :: string
  estimatedSize :: number

definition getQualityMetrics :: "QualityInfo \<Rightarrow> QualityMetrics" where
  "getQualityMetrics qualityInfo =
     (let score' = getQualityScore qualityInfo;
          description' = getQualityDescription qualityInfo;
          estimatedSize' = Num 0;
          estimatedSize' =
            (if truthy (map_of qualityInfo ''maxVideoBitrate'')
             then (let bitrateKbps =
                         num_div (parseInt (to_string (map_of qualityInfo ''maxVideoBitrate''))) (Num 1000)
                   in num_div (num_mul (num_mul bitrateKbps (Num 7200)) (Num 1000)) (Num 8))
             else estimatedSize')
      in \<lparr>score = score', description = description', estimatedSize = estimatedSize'\<rparr>)"

section \<open>Notions of the specification\<close>

text \<open>
  The definitions of this section follow the words of the specification, not the code;
  the theorems below compare the two.
\<close>

definition first_nonempty :: "string option list \<Rightarrow> string option" where
  \<comment> \<open>the first value of the list that is a non-empty string, if there is one\<close>
  "first_nonempty vs = (case filter truthy vs of [] \<Rightarrow> None | v # _ \<Rightarrow> v)"

definition dual_spelling_attributes :: "(string \<times> string) list" where
  \<comment> \<open>video, audio, container and subtitle codec fields: lower camel case and capitalized\<close>
  "dual_spelling_attributes =
    [(''maxVideoBitrate'', ''MaxVideoBitrate''), (''videoCodec'', ''VideoCodec''),
     (''maxWidth'', ''MaxWidth''), (''maxHeight'', ''MaxHeight''),
     (''videoLevel'', ''VideoLevel''), (''profile'', ''Profile''),
     (''maxFramerate'', ''MaxFramerate''), (''videoBitDepth'', ''VideoBitDepth''),
     (''audioCodec'', ''AudioCodec''), (''audioChannels'', ''AudioChannels''),
     (''audioBitrate'', ''AudioBitrate''), (''audioSampleRate'', ''AudioSampleRate''),
     (''container'', ''Container''), (''segmentContainer'', ''SegmentContainer''),
     (''subtitleCodec'', ''SubtitleCodec'')]"

definition lower_camel_only_attributes :: "string list" where
  \<comment> \<open>the stream selection fields\<close>
  "lower_camel_only_attributes =
    [''audioStreamIndex'', ''subtitleStreamIndex'', ''audioLanguage'', ''subtitleLanguage'',
     ''maxAudioChannels'', ''transcodingMaxAudioChannels'', ''subtitleMethod'', ''startTimeTicks'']"

definition quality_pairs :: "QualityInfo \<Rightarrow> string \<Rightarrow> string option" where
  \<comment> \<open>the attribute/value pairs of a descriptor without its three session fields\<close>
  "quality_pairs d = map_of d |` (- {''deviceId'', ''playSessionId'', ''mediaSourceId''})"

definition no_empty_values :: "QualityInfo \<Rightarrow> bool" where
  \<comment> \<open>the descriptor has no empty placeholder: every attribute it holds has a value\<close>
  "no_empty_values d = list_all (\<lambda>(k, v). v \<noteq> []) d"







definition attr_value :: "QualityInfo \<Rightarrow> string \<Rightarrow> number option" where
  \<comment> \<open>the number that an attribute's value parses to; \<open>None\<close> when the attribute is
      absent or does not parse\<close>
  "attr_value d k =
     (case map_of d k of
        None \<Rightarrow> None
      | Some v \<Rightarrow> (case parseInt v of NaN \<Rightarrow> None | x \<Rightarrow> Some x))"

definition score_terms :: "QualityInfo \<Rightarrow> number list" where
  \<comment> \<open>the terms of the score whose attributes have a number, in the order of the formula\<close>
  "score_terms d =
     (case attr_value d ''maxVideoBitrate'' of None \<Rightarrow> [] | Some b \<Rightarrow> [num_div b (Num 1000)])
     @ (case (attr_value d ''maxWidth'', attr_value d ''maxHeight'') of
          (Some w, Some h) \<Rightarrow> [num_div (num_mul w h) (Num 1000)]
        | _ \<Rightarrow> [])
     @ (case attr_value d ''audioBitrate'' of None \<Rightarrow> [] | Some a \<Rightarrow> [num_div a (Num 10)])"

definition score_formula :: "QualityInfo \<Rightarrow> number" where
  \<comment> \<open>the sum of the terms, from 0 and from left to right, in the arithmetic of doubles;
      a term without its attribute adds nothing\<close>
  "score_formula d = foldl num_add (Num 0) (score_terms d)"

definition non_negative :: "number \<Rightarrow> bool" where
  \<comment> \<open>a number that is not negative: zero, a positive double or \<open>Infinity\<close>\<close>
  "non_negative x = (case x of Num r \<Rightarrow> 0 \<le> r | Infinity \<Rightarrow> True | _ \<Rightarrow> False)"

definition finite_non_negative :: "number \<Rightarrow> bool" where
  "finite_non_negative x = (case x of Num r \<Rightarrow> 0 \<le> r | _ \<Rightarrow> False)"

definition parses :: "QualityInfo \<Rightarrow> string \<Rightarrow> bool" where
  \<comment> \<open>the attribute is absent, or its value parses as an integer\<close>
  "parses d k = (case map_of d k of None \<Rightarrow> True | Some v \<Rightarrow> parseInt v \<noteq> NaN)"

definition unparseable :: "QualityInfo \<Rightarrow> string \<Rightarrow> bool" where
  \<comment> \<open>the attribute has a non-empty value that does not parse as an integer\<close>
  "unparseable d k = (case map_of d k of None \<Rightarrow> False | Some v \<Rightarrow> v \<noteq> [] \<and> parseInt v = NaN)"

definition has_value :: "QualityInfo \<Rightarrow> string \<Rightarrow> bool" where
  \<comment> \<open>the attribute has a non-empty value\<close>
  "has_value d k = (case map_of d k of None \<Rightarrow> False | Some v \<Rightarrow> v \<noteq> [])"

definition score_poisoned :: "QualityInfo \<Rightarrow> bool" where
  \<comment> \<open>a term that the score includes has a value that does not parse\<close>
  "score_poisoned d =
     (unparseable d ''maxVideoBitrate''
      \<or> (has_value d ''maxWidth'' \<and> has_value d ''maxHeight''
          \<and> (unparseable d ''maxWidth'' \<or> unparseable d ''maxHeight''))
      \<or> unparseable d ''audioBitrate'')"

section \<open>Properties of the extractor\<close>

lemma map_of_delete_undefined:
  "distinct (map fst obj) \<Longrightarrow>
   map_of (delete_undefined obj) k = (case map_of obj k of Some (Some v) \<Rightarrow> Some v | _ \<Rightarrow> None)"
proof (induction obj rule: delete_undefined.induct)
  case 1
  then show ?case by simp
next
  case (2 key obj)
  then have "map_of obj key = None"
    by (simp add: map_of_eq_None_iff)
  with 2 show ?case by simp
next
  case (3 key v obj)
  then show ?case by simp
qed

lemma keys_delete_undefined: "fst ` set (delete_undefined obj) \<subseteq> fst ` set obj"
  by (induction obj rule: delete_undefined.induct) auto

lemma distinct_quality_literal: "distinct (map fst (quality_literal params))"
  by (simp add: quality_literal_def)

lemma map_fst_quality_literal:
  "map fst (quality_literal params) =
     map fst dual_spelling_attributes @ lower_camel_only_attributes
       @ [''mediaSourceId'', ''deviceId'', ''playSessionId'']"
  by (simp add: quality_literal_def dual_spelling_attributes_def lower_camel_only_attributes_def)

lemma keys_quality_literal:
  "fst ` set (quality_literal params) =
     fst ` set dual_spelling_attributes \<union> set lower_camel_only_attributes \<union> set session_keys"
proof -
  have "fst ` set (quality_literal params) = set (map fst (quality_literal params))"
    by simp
  also have "\<dots> = fst ` set dual_spelling_attributes \<union> set lower_camel_only_attributes
      \<union> set [''mediaSourceId'', ''deviceId'', ''playSessionId'']"
    unfolding map_fst_quality_literal by (simp only: set_append set_map Un_assoc)
  also have "set [''mediaSourceId'', ''deviceId'', ''playSessionId''] = set session_keys"
    unfolding session_keys_def by (simp only: list.set) blast
  finally show ?thesis .
qed

lemma js_or_None: "js_or v None = first_nonempty [v]"
  by (simp add: js_or_def first_nonempty_def)

lemma js_or_js_or_None: "js_or (js_or a b) None = first_nonempty [a, b]"
  by (simp add: js_or_def first_nonempty_def)

lemma case_first_nonempty:
  "(case first_nonempty vs of None \<Rightarrow> None | Some (v::string) \<Rightarrow> Some v) = first_nonempty vs"
  by (simp split: option.splits)

lemma first_nonempty_Some: "first_nonempty vs = Some s \<Longrightarrow> s \<noteq> []"
proof (cases "filter truthy vs")
  case Nil
  assume "first_nonempty vs = Some s"
  with Nil show ?thesis by (simp add: first_nonempty_def)
next
  case (Cons v r)
  assume s: "first_nonempty vs = Some s"
  from Cons have "v \<in> set (filter truthy vs)" by simp
  then have "truthy v" by simp
  with Cons s show ?thesis by (simp add: first_nonempty_def truthy_def)
qed

lemma map_of_extracted:
  "map_of (delete_undefined (quality_literal params)) k =
     (case map_of (quality_literal params) k of Some (Some v) \<Rightarrow> Some v | _ \<Rightarrow> None)"
  by (rule map_of_delete_undefined [OF distinct_quality_literal])

lemma extract_Inr:
  "URL url = Inr params \<Longrightarrow>
   extractQualityFromUrl URL url = Inr (delete_undefined (quality_literal params))"
  by (simp add: extractQualityFromUrl_def extract_try_def)

lemma dropWhile_head: "dropWhile P r = d # rest \<Longrightarrow> d \<in> set r"
  by (metis list.set_intros(1) set_dropWhileD)

lemma split_scheme_no_colon:
  assumes "CHR '':'' \<notin> set s"
  shows "split_scheme s = None"
  using assms by (auto simp: split_scheme_def split: list.splits dest: dropWhile_head)

lemma set_url_preprocess: "set (url_preprocess s) \<subseteq> set s"
proof -
  have "set (dropWhile c0_control_or_space (rev (dropWhile c0_control_or_space s)))
          \<subseteq> set (rev (dropWhile c0_control_or_space s))"
    by (meson set_dropWhileD subsetI)
  moreover have "set (dropWhile c0_control_or_space s) \<subseteq> set s"
    by (meson set_dropWhileD subsetI)
  ultimately show ?thesis by (auto simp: url_preprocess_def)
qed

text \<open>
  C4. The extractor returns a descriptor for every input string and never throws: the
  exception of the URL parser is caught, and the result is then the empty descriptor.
\<close>

theorem extractQualityFromUrl_total:
  "(\<exists>q. extractQualityFromUrl URL url = Inr q) \<and>
   (\<forall>e. URL url = Inl e \<longrightarrow> extractQualityFromUrl URL url = Inr [])"
  by (cases "URL url") (simp_all add: extractQualityFromUrl_def extract_try_def)

theorem extractQualityFromUrl_total_witness:
  "new_URL ''not a url'' = Inl TypeError \<and> extractQualityFromUrl new_URL ''not a url'' = Inr []"
proof -
  have h: "new_URL ''not a url'' = Inl TypeError"
    by code_simp
  with extractQualityFromUrl_total [of new_URL "''not a url''"] show ?thesis
    by blast
qed

text \<open>
  C5. For a URL that parses, the descriptor binds every attribute with two spellings to
  the value of the lower camel case parameter when that is not empty, else to the value
  of the capitalized parameter when that is not empty; it binds every stream selection
  attribute to the value of its lower camel case parameter when that is not empty; and
  an attribute without such a value has no entry in the descriptor.
\<close>

theorem extractQualityFromUrl_spellings:
  assumes "URL url = Inr params"
  shows "\<exists>q. extractQualityFromUrl URL url = Inr q \<and>
     (\<forall>(lower, capital) \<in> set dual_spelling_attributes.
        map_of q lower = first_nonempty [params_get params lower, params_get params capital] \<and>
        (first_nonempty [params_get params lower, params_get params capital] = None
           \<longrightarrow> lower \<notin> fst ` set q)) \<and>
     (\<forall>lower \<in> set lower_camel_only_attributes.
        map_of q lower = first_nonempty [params_get params lower] \<and>
        (first_nonempty [params_get params lower] = None \<longrightarrow> lower \<notin> fst ` set q))"
proof -
  let ?q = "delete_undefined (quality_literal params)"
  have none: "map_of ?q k = None \<Longrightarrow> k \<notin> fst ` set ?q" for k
    by (simp add: map_of_eq_None_iff)
  have 1: "extractQualityFromUrl URL url = Inr ?q"
    using assms by (rule extract_Inr)
  have 2: "\<forall>(lower, capital) \<in> set dual_spelling_attributes.
        map_of ?q lower = first_nonempty [params_get params lower, params_get params capital]"
    unfolding dual_spelling_attributes_def map_of_extracted
    by (simp add: quality_literal_def js_or_js_or_None case_first_nonempty)
  have 3: "\<forall>lower \<in> set lower_camel_only_attributes.
        map_of ?q lower = first_nonempty [params_get params lower]"
    unfolding lower_camel_only_attributes_def map_of_extracted
    by (simp add: quality_literal_def js_or_None case_first_nonempty)
  have 4: "\<forall>(lower, capital) \<in> set dual_spelling_attributes.
        map_of ?q lower = first_nonempty [params_get params lower, params_get params capital] \<and>
        (first_nonempty [params_get params lower, params_get params capital] = None
           \<longrightarrow> lower \<notin> fst ` set ?q)"
  proof (intro ballI, clarify)
    fix lower capital
    assume "(lower, capital) \<in> set dual_spelling_attributes"
    then have e: "map_of ?q lower = first_nonempty [params_get params lower, params_get params capital]"
      using 2 by auto
    show "map_of ?q lower = first_nonempty [params_get params lower, params_get params capital] \<and>
        (first_nonempty [params_get params lower, params_get params capital] = None
           \<longrightarrow> lower \<notin> fst ` set ?q)"
      using e none [of lower] by simp
  qed
  have 5: "\<forall>lower \<in> set lower_camel_only_attributes.
        map_of ?q lower = first_nonempty [params_get params lower] \<and>
        (first_nonempty [params_get params lower] = None \<longrightarrow> lower \<notin> fst ` set ?q)"
  proof (intro ballI)
    fix lower
    assume "lower \<in> set lower_camel_only_attributes"
    then have e: "map_of ?q lower = first_nonempty [params_get params lower]"
      using 3 by auto
    show "map_of ?q lower = first_nonempty [params_get params lower] \<and>
        (first_nonempty [params_get params lower] = None \<longrightarrow> lower \<notin> fst ` set ?q)"
      using e none [of lower] by simp
  qed
  show ?thesis
    by (rule exI [of _ ?q]) (intro conjI 1 4 5)
qed

theorem extractQualityFromUrl_spellings_witness:
  "new_URL ''http://h/v?maxWidth=&MaxWidth=1280&AudioLanguage=de&videoCodec=h264&VideoCodec=hevc''
     = Inr [(''maxWidth'', ''''), (''MaxWidth'', ''1280''), (''AudioLanguage'', ''de''),
            (''videoCodec'', ''h264''), (''VideoCodec'', ''hevc'')] \<and>
   map_of (projr (extractQualityFromUrl new_URL
      ''http://h/v?maxWidth=&MaxWidth=1280&AudioLanguage=de&videoCodec=h264&VideoCodec=hevc''))
      ''maxWidth'' = Some ''1280'' \<and>
   map_of (projr (extractQualityFromUrl new_URL
      ''http://h/v?maxWidth=&MaxWidth=1280&AudioLanguage=de&videoCodec=h264&VideoCodec=hevc''))
      ''videoCodec'' = Some ''h264'' \<and>
   ''audioLanguage'' \<notin> fst ` set (projr (extractQualityFromUrl new_URL
      ''http://h/v?maxWidth=&MaxWidth=1280&AudioLanguage=de&videoCodec=h264&VideoCodec=hevc''))"
proof -
  let ?url = "''http://h/v?maxWidth=&MaxWidth=1280&AudioLanguage=de&videoCodec=h264&VideoCodec=hevc''"
  let ?params = "[(''maxWidth'', ''''), (''MaxWidth'', ''1280''), (''AudioLanguage'', ''de''),
            (''videoCodec'', ''h264''), (''VideoCodec'', ''hevc'')]"
  have h: "new_URL ?url = Inr ?params"
    by code_simp
  from extractQualityFromUrl_spellings [of new_URL ?url ?params, OF h] obtain q where
    q: "extractQualityFromUrl new_URL ?url = Inr q" and
    dual: "\<forall>(lower, capital) \<in> set dual_spelling_attributes.
        map_of q lower = first_nonempty [params_get ?params lower, params_get ?params capital] \<and>
        (first_nonempty [params_get ?params lower, params_get ?params capital] = None
           \<longrightarrow> lower \<notin> fst ` set q)" and
    single: "\<forall>lower \<in> set lower_camel_only_attributes.
        map_of q lower = first_nonempty [params_get ?params lower] \<and>
        (first_nonempty [params_get ?params lower] = None \<longrightarrow> lower \<notin> fst ` set q)"
    by blast
  from dual have "map_of q ''maxWidth'' = first_nonempty [params_get ?params ''maxWidth'', params_get ?params ''MaxWidth'']"
    by (simp add: dual_spelling_attributes_def)
  then have w: "map_of q ''maxWidth'' = Some ''1280''"
    by (simp add: first_nonempty_def params_get_def truthy_def)
  from dual have "map_of q ''videoCodec'' = first_nonempty [params_get ?params ''videoCodec'', params_get ?params ''VideoCodec'']"
    by (simp add: dual_spelling_attributes_def)
  then have c: "map_of q ''videoCodec'' = Some ''h264''"
    by (simp add: first_nonempty_def params_get_def truthy_def)
  from single have "first_nonempty [params_get ?params ''audioLanguage''] = None \<longrightarrow> ''audioLanguage'' \<notin> fst ` set q"
    by (simp add: lower_camel_only_attributes_def)
  then have a: "''audioLanguage'' \<notin> fst ` set q"
    by (simp add: first_nonempty_def params_get_def truthy_def)
  from h q w c a show ?thesis by simp
qed

text \<open>
  C3, as amended. An input that is only a query component has no scheme in front; for
  every input string without a colon, such as \<open>maxWidth=1920&maxHeight=1080\<close>, the URL
  parser fails and the extractor returns the empty descriptor. The attributes of a query
  are extracted only from an absolute URL that carries it.
\<close>

theorem extractQualityFromUrl_query_only:
  assumes "CHR '':'' \<notin> set url"
  shows "extractQualityFromUrl new_URL url = Inr []"
proof -
  from assms set_url_preprocess [of url] have "CHR '':'' \<notin> set (url_preprocess url)"
    by blast
  then have "split_scheme (url_preprocess url) = None"
    by (rule split_scheme_no_colon)
  then show ?thesis
    by (simp add: extractQualityFromUrl_def extract_try_def new_URL_def)
qed

theorem extractQualityFromUrl_query_only_witness:
  "CHR '':'' \<notin> set ''audioCodec=aac&AudioBitrate=128000'' \<and>
   extractQualityFromUrl new_URL ''audioCodec=aac&AudioBitrate=128000'' = Inr []"
proof -
  have h: "CHR '':'' \<notin> set ''audioCodec=aac&AudioBitrate=128000''"
    by simp
  from h extractQualityFromUrl_query_only [OF h] show ?thesis by (rule conjI)
qed

theorem extractQualityFromUrl_query_only_counterexample:
  "extractQualityFromUrl new_URL ''maxWidth=1920&maxHeight=1080'' = Inr [] \<and>
   extractQualityFromUrl new_URL ''http://h/v?maxWidth=1920&maxHeight=1080''
     = Inr [(''maxWidth'', ''1920''), (''maxHeight'', ''1080'')]"
  by code_simp

text \<open>
  C10. The session identifiers are read only from the capitalized parameters
  \<open>MediaSourceId\<close>, \<open>DeviceId\<close> and \<open>PlaySessionId\<close> and stored under the lower camel
  case keys; without the capitalized parameter the descriptor has no entry for the field,
  whatever else the query carries. Every key of an extracted descriptor is a quality
  attribute or one of the three keys that the hash leaves out.
\<close>

theorem extractQualityFromUrl_session_fields:
  assumes "URL url = Inr params"
  shows "\<exists>q. extractQualityFromUrl URL url = Inr q \<and>
     map_of q ''mediaSourceId'' = first_nonempty [params_get params ''MediaSourceId''] \<and>
     map_of q ''deviceId'' = first_nonempty [params_get params ''DeviceId''] \<and>
     map_of q ''playSessionId'' = first_nonempty [params_get params ''PlaySessionId''] \<and>
     (params_get params ''MediaSourceId'' = None \<longrightarrow> ''mediaSourceId'' \<notin> fst ` set q) \<and>
     (params_get params ''DeviceId'' = None \<longrightarrow> ''deviceId'' \<notin> fst ` set q) \<and>
     (params_get params ''PlaySessionId'' = None \<longrightarrow> ''playSessionId'' \<notin> fst ` set q) \<and>
     fst ` set q \<subseteq> fst ` set dual_spelling_attributes \<union> set lower_camel_only_attributes
                     \<union> set session_keys"
proof -
  let ?q = "delete_undefined (quality_literal params)"
  have none: "map_of ?q k = None \<Longrightarrow> k \<notin> fst ` set ?q" for k
    by (simp add: map_of_eq_None_iff)
  have fn: "v = None \<Longrightarrow> first_nonempty [v] = None" for v
    by (simp add: first_nonempty_def truthy_def)
  have 1: "extractQualityFromUrl URL url = Inr ?q"
    using assms by (rule extract_Inr)
  have m: "map_of ?q ''mediaSourceId'' = first_nonempty [params_get params ''MediaSourceId'']"
    unfolding map_of_extracted
    by (simp add: quality_literal_def js_or_None case_first_nonempty)
  have d: "map_of ?q ''deviceId'' = first_nonempty [params_get params ''DeviceId'']"
    unfolding map_of_extracted
    by (simp add: quality_literal_def js_or_None case_first_nonempty)
  have p: "map_of ?q ''playSessionId'' = first_nonempty [params_get params ''PlaySessionId'']"
    unfolding map_of_extracted
    by (simp add: quality_literal_def js_or_None case_first_nonempty)
  have k: "fst ` set ?q \<subseteq> fst ` set dual_spelling_attributes \<union> set lower_camel_only_attributes
                     \<union> set session_keys"
    using keys_delete_undefined [of "quality_literal params"]
    unfolding keys_quality_literal .
  have m': "params_get params ''MediaSourceId'' = None \<longrightarrow> ''mediaSourceId'' \<notin> fst ` set ?q"
    using m fn [of "params_get params ''MediaSourceId''"] none [of "''mediaSourceId''"] by simp
  have d': "params_get params ''DeviceId'' = None \<longrightarrow> ''deviceId'' \<notin> fst ` set ?q"
    using d fn [of "params_get params ''DeviceId''"] none [of "''deviceId''"] by simp
  have p': "params_get params ''PlaySessionId'' = None \<longrightarrow> ''playSessionId'' \<notin> fst ` set ?q"
    using p fn [of "params_get params ''PlaySessionId''"] none [of "''playSessionId''"] by simp
  show ?thesis
    by (rule exI [of _ ?q]) (intro conjI 1 m d p m' d' p' k)
qed

theorem extractQualityFromUrl_session_fields_witness:
  "new_URL ''http://h/v?deviceId=x&PlaySessionId=p1''
     = Inr [(''deviceId'', ''x''), (''PlaySessionId'', ''p1'')] \<and>
   ''deviceId'' \<notin> fst ` set (projr (extractQualityFromUrl new_URL ''http://h/v?deviceId=x&PlaySessionId=p1'')) \<and>
   map_of (projr (extractQualityFromUrl new_URL ''http://h/v?deviceId=x&PlaySessionId=p1''))
     ''playSessionId'' = Some ''p1''"
proof -
  let ?url = "''http://h/v?deviceId=x&PlaySessionId=p1''"
  let ?params = "[(''deviceId'', ''x''), (''PlaySessionId'', ''p1'')]"
  have h: "new_URL ?url = Inr ?params"
    by code_simp
  from extractQualityFromUrl_session_fields [of new_URL ?url ?params, OF h] obtain q where
    all: "extractQualityFromUrl new_URL ?url = Inr q \<and>
     map_of q ''mediaSourceId'' = first_nonempty [params_get ?params ''MediaSourceId''] \<and>
     map_of q ''deviceId'' = first_nonempty [params_get ?params ''DeviceId''] \<and>
     map_of q ''playSessionId'' = first_nonempty [params_get ?params ''PlaySessionId''] \<and>
     (params_get ?params ''MediaSourceId'' = None \<longrightarrow> ''mediaSourceId'' \<notin> fst ` set q) \<and>
     (params_get ?params ''DeviceId'' = None \<longrightarrow> ''deviceId'' \<notin> fst ` set q) \<and>
     (params_get ?params ''PlaySessionId'' = None \<longrightarrow> ''playSessionId'' \<notin> fst ` set q) \<and>
     fst ` set q \<subseteq> fst ` set dual_spelling_attributes \<union> set lower_camel_only_attributes
                     \<union> set session_keys"
    by (rule exE)
  from all have q: "extractQualityFromUrl new_URL ?url = Inr q"
    by (rule conjunct1)
  from all have p: "map_of q ''playSessionId'' = first_nonempty [params_get ?params ''PlaySessionId'']"
    by (elim conjE)
  from all have d: "params_get ?params ''DeviceId'' = None \<longrightarrow> ''deviceId'' \<notin> fst ` set q"
    by (elim conjE)
  from p have p': "map_of q ''playSessionId'' = Some ''p1''"
    by (simp add: first_nonempty_def params_get_def truthy_def)
  from d have d': "''deviceId'' \<notin> fst ` set q"
    by (simp add: params_get_def)
  from h q p' d' show ?thesis by simp
qed

text \<open>Every descriptor that the extractor returns is without empty values.\<close>

lemma delete_undefined_member: "(k, v) \<in> set (delete_undefined obj) \<Longrightarrow> (k, Some v) \<in> set obj"
  by (induction obj rule: delete_undefined.induct) auto

lemma js_or_None_nonempty: "js_or x None = Some s \<Longrightarrow> s \<noteq> []"
  by (auto simp: js_or_def truthy_def split: if_splits)

lemma quality_literal_values: "(k, Some s) \<in> set (quality_literal params) \<Longrightarrow> s \<noteq> []"
  unfolding quality_literal_def
  by (auto dest: js_or_None_nonempty sym [THEN js_or_None_nonempty])

lemma extracted_no_empty_values:
  assumes "extractQualityFromUrl URL url = Inr q"
  shows "no_empty_values q"
proof (cases "URL url")
  case (Inl e)
  with assms show ?thesis
    by (simp add: extractQualityFromUrl_def extract_try_def no_empty_values_def)
next
  case (Inr params)
  with assms have q: "q = delete_undefined (quality_literal params)"
    by (simp add: extractQualityFromUrl_def extract_try_def)
  have "v \<noteq> []" if "(k, v) \<in> set q" for k v
    using that quality_literal_values delete_undefined_member unfolding q by blast
  then show ?thesis
    by (auto simp: no_empty_values_def list_all_iff)
qed

section \<open>Properties of the canonical form and the key\<close>

subsection \<open>The serialization determines the object\<close>

lemma hex_digit_inj:
  assumes "hex_digit a = hex_digit b" and "a < 16" and "b < 16"
  shows "a = b"
proof -
  have "(if a < 10 then 48 + a else 87 + a) mod 256 = (if b < 10 then 48 + b else 87 + b) mod 256"
    using assms(1) unfolding hex_digit_def by (simp split: if_splits)
  with assms(2,3) show ?thesis
    by (simp split: if_splits)
qed

lemma hex_pair_inj:
  assumes "hex_digit (n div 16) = hex_digit (m div 16)"
    and "hex_digit (n mod 16) = hex_digit (m mod 16)"
    and "n < 32" and "m < 32"
  shows "n = m"
proof -
  from assms(1,3,4) have "n div 16 = m div 16"
    by (intro hex_digit_inj) simp_all
  moreover from assms(2) have "n mod 16 = m mod 16"
    by (intro hex_digit_inj) simp_all
  ultimately show ?thesis
    by (metis div_mult_mod_eq)
qed

lemma json_escape_head: "\<exists>x xs. json_escape c = x # xs \<and> x \<noteq> CHR 0x22"
  by (simp add: json_escape_def)

lemma json_escape_prefix_free:
  assumes "json_escape c @ r = json_escape c' @ r'"
  shows "c = c' \<and> r = r'"
proof -
  have u: "c = c'"
    if "hex_digit (of_char c div 16) = hex_digit (of_char c' div 16)"
      and "hex_digit (of_char c mod 16) = hex_digit (of_char c' mod 16)"
      and "(of_char c :: nat) < 32" and "(of_char c' :: nat) < 32"
    using hex_pair_inj [OF that] by simp
  from assms show ?thesis
    unfolding json_escape_def
    by (auto split: if_splits dest: u)
qed

lemma json_body_inj:
  "concat (map json_escape s) @ CHR 0x22 # r = concat (map json_escape s') @ CHR 0x22 # r'
   \<Longrightarrow> s = s' \<and> r = r'"
proof (induction s arbitrary: s')
  case Nil
  show ?case
  proof (cases s')
    case Nil
    with Nil.prems show ?thesis by simp
  next
    case (Cons c t)
    obtain x xs where "json_escape c = x # xs" and "x \<noteq> CHR 0x22"
      using json_escape_head by blast
    with Nil.prems Cons show ?thesis by simp
  qed
next
  case (Cons c t)
  show ?case
  proof (cases s')
    case Nil
    obtain x xs where "json_escape c = x # xs" and "x \<noteq> CHR 0x22"
      using json_escape_head by blast
    with Cons.prems Nil show ?thesis by simp
  next
    case (Cons c' t')
    with Cons.prems have
      "json_escape c @ (concat (map json_escape t) @ CHR 0x22 # r) =
       json_escape c' @ (concat (map json_escape t') @ CHR 0x22 # r')"
      by simp
    then have "c = c'" and
      "concat (map json_escape t) @ CHR 0x22 # r = concat (map json_escape t') @ CHR 0x22 # r'"
      using json_escape_prefix_free by blast+
    with Cons.IH [of t'] \<open>s' = c' # t'\<close> show ?thesis by simp
  qed
qed

lemma json_quote_inj:
  assumes "json_quote s @ r = json_quote s' @ r'"
  shows "s = s' \<and> r = r'"
  using assms json_body_inj [of s r s' r'] by (simp add: json_quote_def)

lemma json_quote_Cons: "\<exists>t. json_quote s = CHR 0x22 # t"
  by (simp add: json_quote_def)

lemma json_member_inj:
  assumes "(json_quote k @ '':'' @ json_quote v) @ r = (json_quote k' @ '':'' @ json_quote v') @ r'"
  shows "k = k' \<and> v = v' \<and> r = r'"
proof -
  from assms have "json_quote k @ ('':'' @ json_quote v @ r) = json_quote k' @ ('':'' @ json_quote v' @ r')"
    by simp
  then have k: "k = k'" and "'':'' @ json_quote v @ r = '':'' @ json_quote v' @ r'"
    using json_quote_inj by blast+
  then have "json_quote v @ r = json_quote v' @ r'"
    by simp
  then have "v = v'" and "r = r'"
    using json_quote_inj by blast+
  with k show ?thesis by simp
qed

lemma join_Cons: "join sep (m # ms) = m @ (if ms = [] then [] else sep @ join sep ms)"
  by (cases ms) simp_all

lemma json_members_Nil:
  "list_all (\<lambda>(k, v). v \<noteq> None) obj \<Longrightarrow> (json_members obj = []) = (obj = [])"
  by (cases obj rule: json_members.cases) simp_all

lemma json_members_inj:
  assumes "list_all (\<lambda>(k, v). v \<noteq> None) obj" and "list_all (\<lambda>(k, v). v \<noteq> None) obj'"
    and "join '','' (json_members obj) @ ''}'' = join '','' (json_members obj') @ ''}''"
  shows "obj = obj'"
  using assms
proof (induction obj arbitrary: obj')
  case Nil
  show ?case
  proof (cases obj')
    case Nil
    then show ?thesis by simp
  next
    case (Cons p rest)
    with Nil.prems(2) obtain k v where p: "p = (k, Some v)"
      by (cases p) auto
    obtain t where "json_quote k = CHR 0x22 # t"
      using json_quote_Cons by blast
    with Nil.prems(3) Cons p show ?thesis
      by (simp add: join_Cons)
  qed
next
  case (Cons p rest)
  from Cons.prems(1) obtain k v where p: "p = (k, Some v)"
    by (cases p) auto
  from Cons.prems(1) have rest: "list_all (\<lambda>(k, v). v \<noteq> None) rest"
    by simp
  show ?case
  proof (cases obj')
    case Nil
    obtain t where "json_quote k = CHR 0x22 # t"
      using json_quote_Cons by blast
    with Cons.prems(3) Nil p show ?thesis
      by (simp add: join_Cons)
  next
    case (Cons p' rest')
    with Cons.prems(2) obtain k' v' where p': "p' = (k', Some v')"
      by (cases p') auto
    from Cons.prems(2) \<open>obj' = p' # rest'\<close> have rest': "list_all (\<lambda>(k, v). v \<noteq> None) rest'"
      by simp
    let ?tail = "\<lambda>ms. (if ms = [] then [] else '','' @ join '','' ms) @ ''}''"
    from Cons.prems(3) \<open>obj' = p' # rest'\<close> p p' have
      "(json_quote k @ '':'' @ json_quote v) @ ?tail (json_members rest) =
       (json_quote k' @ '':'' @ json_quote v') @ ?tail (json_members rest')"
      by (simp add: join_Cons)
    then have kv: "k = k'" "v = v'" and
      tail: "?tail (json_members rest) = ?tail (json_members rest')"
      using json_member_inj by blast+
    have "rest = rest'"
    proof (cases "rest = []")
      case True
      with tail rest' show ?thesis
        by (simp add: json_members_Nil split: if_splits)
    next
      case False
      with rest have m: "json_members rest \<noteq> []"
        by (simp add: json_members_Nil)
      with tail have m': "json_members rest' \<noteq> []"
        by (auto split: if_splits)
      with m tail have "join '','' (json_members rest) @ ''}'' = join '','' (json_members rest') @ ''}''"
        by simp
      with Cons.IH [OF rest rest'] show ?thesis .
    qed
    with kv p p' \<open>obj' = p' # rest'\<close> show ?thesis by simp
  qed
qed

lemma JSON_stringify_inj:
  assumes "list_all (\<lambda>(k, v). v \<noteq> None) obj" and "list_all (\<lambda>(k, v). v \<noteq> None) obj'"
    and "JSON_stringify obj = JSON_stringify obj'"
  shows "obj = obj'"
  using assms by (intro json_members_inj) (simp_all add: JSON_stringify_def)

subsection \<open>The sorted object\<close>

lemma sortedQuality_fold_map_of:
  "map_of (fold (\<lambda>key obj. if key \<notin> set session_keys
                               then AList.update key (map_of d key) obj else obj) ks acc) x =
     (if x \<in> set ks \<and> x \<notin> set session_keys then Some (map_of d x) else map_of acc x)"
  by (induction ks arbitrary: acc) (auto simp: update_conv')

lemma sortedQuality_fold_keys:
  assumes "sorted ks" and "sorted (map fst acc)" and "distinct (map fst acc)"
    and "\<forall>a \<in> set (map fst acc). \<forall>k \<in> set ks. a \<le> k"
  shows "sorted (map fst (fold (\<lambda>key obj. if key \<notin> set session_keys
                               then AList.update key (map_of d key) obj else obj) ks acc)) \<and>
         distinct (map fst (fold (\<lambda>key obj. if key \<notin> set session_keys
                               then AList.update key (map_of d key) obj else obj) ks acc))"
  using assms
proof (induction ks arbitrary: acc)
  case Nil
  then show ?case by simp
next
  case (Cons k ks)
  let ?acc = "if k \<notin> set session_keys then AList.update k (map_of d k) acc else acc"
  from Cons.prems(1) have ks: "sorted ks" and le: "\<forall>k' \<in> set ks. k \<le> k'"
    by simp_all
  from Cons.prems(4) have below: "\<forall>a \<in> set (map fst acc). a \<le> k"
    and rest: "\<forall>a \<in> set (map fst acc). \<forall>k' \<in> set ks. a \<le> k'"
    by simp_all
  have keys: "map fst ?acc = map fst acc \<or> (k \<notin> set (map fst acc) \<and> map fst ?acc = map fst acc @ [k])"
    by (simp add: update_keys)
  from keys Cons.prems(2) below have 1: "sorted (map fst ?acc)"
    by (auto simp: sorted_append)
  from keys Cons.prems(3) have 2: "distinct (map fst ?acc)"
    by auto
  from keys have "set (map fst ?acc) \<subseteq> insert k (set (map fst acc))"
    by (elim disjE conjE) (simp_all only: set_append list.set, auto)
  with rest le have 3: "\<forall>a \<in> set (map fst ?acc). \<forall>k' \<in> set ks. a \<le> k'"
    by blast
  from Cons.IH [OF ks 1 2 3] show ?case
    by simp
qed

lemma map_of_sortedQuality:
  "map_of (sortedQuality d) x =
     (if x \<in> fst ` set d \<and> x \<notin> set session_keys then Some (map_of d x) else None)"
  by (simp add: sortedQuality_def sortedQuality_fold_map_of)

lemma sorted_keys_sortedQuality:
  "sorted (map fst (sortedQuality d)) \<and> distinct (map fst (sortedQuality d))"
  unfolding sortedQuality_def by (rule sortedQuality_fold_keys) simp_all

lemma values_sortedQuality: "list_all (\<lambda>(k, v). v \<noteq> None) (sortedQuality d)"
proof -
  have "v \<noteq> None" if "(k, v) \<in> set (sortedQuality d)" for k v
  proof -
    from that sorted_keys_sortedQuality [of d] have "map_of (sortedQuality d) k = Some v"
      by simp
    then have "k \<in> fst ` set d" and "v = map_of d k"
      by (simp_all add: map_of_sortedQuality split: if_splits)
    then show ?thesis
      by (simp add: map_of_eq_None_iff)
  qed
  then show ?thesis
    by (auto simp: list_all_iff)
qed

lemma sorted_distinct_map_of_unique:
  assumes "sorted (map fst xs)" and "distinct (map fst xs)"
    and "sorted (map fst ys)" and "distinct (map fst ys)"
    and "map_of xs = map_of ys"
  shows "xs = ys"
proof -
  from assms(2,4,5) have s: "set xs = set ys"
    by (simp add: map_of_inject_set)
  from assms(2) have "inj_on fst (set xs)"
    by (simp add: distinct_map)
  with s have "inj_on fst (set xs \<union> set ys)"
    by simp
  then show ?thesis
    using assms(1-4) s by (rule map_sorted_distinct_set_unique)
qed

lemma session_keys_set: "set session_keys = {''deviceId'', ''playSessionId'', ''mediaSourceId''}"
  by (simp add: session_keys_def)

lemma quality_pairs_eq:
  "(quality_pairs d1 = quality_pairs d2) =
     (\<forall>x. x \<notin> set session_keys \<longrightarrow> map_of d1 x = map_of d2 x)"
  unfolding quality_pairs_def session_keys_set [symmetric]
  by (auto simp: fun_eq_iff restrict_map_def)

lemma sortedQuality_eq_iff:
  "(sortedQuality d1 = sortedQuality d2) = (quality_pairs d1 = quality_pairs d2)"
proof
  assume eq: "sortedQuality d1 = sortedQuality d2"
  have "map_of d1 x = map_of d2 x" if "x \<notin> set session_keys" for x
  proof -
    from eq have "map_of (sortedQuality d1) x = map_of (sortedQuality d2) x"
      by simp
    with that have
      "(if x \<in> fst ` set d1 then Some (map_of d1 x) else None) =
       (if x \<in> fst ` set d2 then Some (map_of d2 x) else None)"
      by (simp add: map_of_sortedQuality)
    then show ?thesis
      by (auto simp: map_of_eq_None_iff [symmetric] split: if_splits)
  qed
  then show "quality_pairs d1 = quality_pairs d2"
    by (simp add: quality_pairs_eq)
next
  assume "quality_pairs d1 = quality_pairs d2"
  then have eq: "map_of d1 x = map_of d2 x" if "x \<notin> set session_keys" for x
    using that by (simp add: quality_pairs_eq)
  have "map_of (sortedQuality d1) x = map_of (sortedQuality d2) x" for x
  proof (cases "x \<in> set session_keys")
    case True
    then show ?thesis by (simp add: map_of_sortedQuality)
  next
    case False
    from eq [OF False] have "(x \<in> fst ` set d1) = (x \<in> fst ` set d2)"
      by (metis map_of_eq_None_iff)
    with eq [OF False] show ?thesis
      by (simp add: map_of_sortedQuality)
  qed
  then have "map_of (sortedQuality d1) = map_of (sortedQuality d2)"
    by (rule ext)
  with sorted_keys_sortedQuality [of d1] sorted_keys_sortedQuality [of d2]
  show "sortedQuality d1 = sortedQuality d2"
    by (intro sorted_distinct_map_of_unique) simp_all
qed

lemma canonical_eq_iff:
  "(JSON_stringify (sortedQuality d1) = JSON_stringify (sortedQuality d2)) =
     (quality_pairs d1 = quality_pairs d2)"
proof -
  have "(JSON_stringify (sortedQuality d1) = JSON_stringify (sortedQuality d2)) =
        (sortedQuality d1 = sortedQuality d2)"
    using JSON_stringify_inj [OF values_sortedQuality values_sortedQuality] by auto
  then show ?thesis
    by (simp add: sortedQuality_eq_iff)
qed

subsection \<open>The key\<close>

lemma length_hex: "length (hex bs) = 2 * length bs"
  by (induction bs) (simp_all add: hex_def)

lemma length_md5: "length (md5 m) = 16"
  by (simp add: md5_def Let_def le_bytes32_def split: prod.splits)

lemma length_generateQualityHash: "length (generateQualityHash d) = 12"
  by (simp add: generateQualityHash_def Let_def length_hex length_md5)

text \<open>The model of MD5 on a test vector of RFC 1321.\<close>

lemma md5_test_vector: "hex (md5 (utf8 ''abc'')) = ''900150983cd24fb0d6963f7d28e17f72''"
  by code_simp

text \<open>
  C1, as amended. Two descriptors have the same canonical serialization exactly when they
  hold the same attribute/value pairs outside the three session fields, in whatever order
  the attributes were populated. Descriptors with the same such pairs, in particular
  descriptors that differ only in session fields, get the same key of 12 characters.
  Descriptors that differ in another attribute get different serializations; their keys
  are the first 48 bits of the MD5 of these and can coincide.
\<close>

theorem generateQualityHash_canonical:
  "(JSON_stringify (sortedQuality d1) = JSON_stringify (sortedQuality d2)) =
     (quality_pairs d1 = quality_pairs d2) \<and>
   (quality_pairs d1 = quality_pairs d2 \<longrightarrow> generateQualityHash d1 = generateQualityHash d2) \<and>
   length (generateQualityHash d1) = 12"
proof (intro conjI impI)
  show "(JSON_stringify (sortedQuality d1) = JSON_stringify (sortedQuality d2)) =
     (quality_pairs d1 = quality_pairs d2)"
    by (rule canonical_eq_iff)
  show "generateQualityHash d1 = generateQualityHash d2" if "quality_pairs d1 = quality_pairs d2"
    using that canonical_eq_iff [of d1 d2] by (simp add: generateQualityHash_def)
  show "length (generateQualityHash d1) = 12"
    by (rule length_generateQualityHash)
qed

theorem generateQualityHash_canonical_witness:
  "quality_pairs [(''maxWidth'', ''1920''), (''deviceId'', ''tv''), (''audioCodec'', ''aac'')] =
   quality_pairs [(''audioCodec'', ''aac''), (''playSessionId'', ''p7''), (''maxWidth'', ''1920'')] \<and>
   generateQualityHash [(''maxWidth'', ''1920''), (''deviceId'', ''tv''), (''audioCodec'', ''aac'')] =
   generateQualityHash [(''audioCodec'', ''aac''), (''playSessionId'', ''p7''), (''maxWidth'', ''1920'')]"
proof -
  let ?d1 = "[(''maxWidth'', ''1920''), (''deviceId'', ''tv''), (''audioCodec'', ''aac'')]"
  let ?d2 = "[(''audioCodec'', ''aac''), (''playSessionId'', ''p7''), (''maxWidth'', ''1920'')]"
  have h: "quality_pairs ?d1 = quality_pairs ?d2"
    by (simp add: quality_pairs_eq session_keys_def)
  with generateQualityHash_canonical [of ?d1 ?d2] have "generateQualityHash ?d1 = generateQualityHash ?d2"
    by blast
  with h show ?thesis by (rule conjI)
qed

theorem generateQualityHash_canonical_counterexample:
  "quality_pairs [(''maxVideoBitrate'', ''1020841'')] ''maxVideoBitrate'' = Some ''1020841'' \<and>
   quality_pairs [(''maxVideoBitrate'', ''28891908'')] ''maxVideoBitrate'' = Some ''28891908'' \<and>
   generateQualityHash [(''maxVideoBitrate'', ''1020841'')] = ''655f2caa15cb'' \<and>
   generateQualityHash [(''maxVideoBitrate'', ''28891908'')] = ''655f2caa15cb''"
proof (intro conjI)
  show "quality_pairs [(''maxVideoBitrate'', ''1020841'')] ''maxVideoBitrate'' = Some ''1020841''"
    by (simp add: quality_pairs_def)
  show "quality_pairs [(''maxVideoBitrate'', ''28891908'')] ''maxVideoBitrate'' = Some ''28891908''"
    by (simp add: quality_pairs_def)
  show "generateQualityHash [(''maxVideoBitrate'', ''1020841'')] = ''655f2caa15cb''"
    by code_simp
  show "generateQualityHash [(''maxVideoBitrate'', ''28891908'')] = ''655f2caa15cb''"
    by code_simp
qed

text \<open>
  C9. \<open>areQualitiesEqual\<close> is the equality of the two hashes; it is reflexive and
  symmetric.
\<close>

theorem areQualitiesEqual_hash:
  "areQualitiesEqual d1 d2 = (generateQualityHash d1 = generateQualityHash d2) \<and>
   areQualitiesEqual d d \<and>
   areQualitiesEqual d1 d2 = areQualitiesEqual d2 d1"
  by (auto simp: areQualitiesEqual_def)


section \<open>Properties of score and metrics\<close>

subsection \<open>Doubles\<close>

lemma double_limit_numeral [code]:
  "double_limit = 179769313486231590772930519078902473361797697894230657273430081157732675805500963132708477322407536021120113879871393357658789768814416622492847430639474124377767893424865485276302219601246094119453082952085005768838150682342462881473913110540827237163350510684586298239947245938479716304835356329624224137216"
  by (simp add: double_limit_def)

lemma pow2_code [code]:
  "pow2 e =
     (if e = 0 then 1
      else if e < 0 then 1 / pow2 (- e)
      else if even e then pow2 (e div 2) * pow2 (e div 2)
      else 2 * pow2 (e - 1))"
proof -
  have double: "pow2 (k + k) = pow2 k * pow2 k" for k
    unfolding pow2_def by (rule power_int_add) simp
  have "pow2 e = pow2 (e div 2) * pow2 (e div 2)" if "even e"
  proof -
    from that obtain k where "e = 2 * k" ..
    then have "e = k + k" and "e div 2 = k"
      by simp_all
    with double [of k] show ?thesis
      by simp
  qed
  moreover have "pow2 e = 1 / pow2 (- e)"
    by (simp add: pow2_def power_int_minus field_simps)
  moreover have "pow2 e = 2 * pow2 (e - 1)"
    by (simp add: pow2_def power_int_diff)
  ultimately show ?thesis
    by (simp add: pow2_def)
qed

lemma to_double_not_NaN: "to_double r \<noteq> NaN"
  by (simp add: to_double_def split: option.splits)

lemma round_half_even_nonneg: "0 \<le> q \<Longrightarrow> 0 \<le> round_half_even q"
  by (auto simp: round_half_even_def Let_def)

lemma to_double_pos_nonneg:
  assumes "to_double_pos a = Some v" and "0 < a"
  shows "0 \<le> v"
proof -
  let ?ulp = "pow2 (max (floor_log2 a) (- 1022) - 52)"
  have ulp: "0 < ?ulp"
    by (simp add: pow2_def)
  with assms(2) have "0 \<le> a / ?ulp"
    by simp
  then have "0 \<le> round_half_even (a / ?ulp)"
    by (rule round_half_even_nonneg)
  with ulp have "0 \<le> of_int (round_half_even (a / ?ulp)) * ?ulp"
    by simp
  with assms(1) show ?thesis
    by (simp add: to_double_pos_def Let_def split: if_splits)
qed

lemma non_negative_to_double: "0 \<le> r \<Longrightarrow> non_negative (to_double r)"
  by (auto simp: to_double_def non_negative_def split: option.splits dest: to_double_pos_nonneg)

lemma non_negative_simps:
  "non_negative (Num r) = (0 \<le> r)" "non_negative Infinity"
  "\<not> non_negative NaN" "\<not> non_negative NegInfinity"
  by (simp_all add: non_negative_def)

lemma finite_non_negative_simps:
  "finite_non_negative (Num r) = (0 \<le> r)" "\<not> finite_non_negative Infinity"
  "\<not> finite_non_negative NaN" "\<not> finite_non_negative NegInfinity"
  by (simp_all add: finite_non_negative_def)

lemma non_negative_num_add:
  "non_negative x \<Longrightarrow> non_negative y \<Longrightarrow> non_negative (num_add x y)"
  by (cases x; cases y) (simp_all add: non_negative_simps non_negative_to_double)

lemma non_negative_num_mul:
  "finite_non_negative x \<Longrightarrow> finite_non_negative y \<Longrightarrow> non_negative (num_mul x y)"
  by (cases x; cases y) (simp_all add: finite_non_negative_simps non_negative_to_double)

lemma non_negative_num_div:
  "non_negative x \<Longrightarrow> 0 < c \<Longrightarrow> non_negative (num_div x (Num c))"
  by (cases x) (simp_all add: non_negative_simps non_negative_to_double)

lemma finite_non_negative_imp: "finite_non_negative x \<Longrightarrow> non_negative x"
  by (cases x) (simp_all add: finite_non_negative_simps non_negative_simps)

lemma term_non_negative:
  assumes "\<And>x. v = Some x \<Longrightarrow> finite_non_negative x" and "0 < c"
  shows "\<forall>t \<in> set (case v of None \<Rightarrow> [] | Some x \<Rightarrow> [num_div x (Num c)]). non_negative t"
  using assms by (cases v) (simp_all add: non_negative_num_div finite_non_negative_imp)

lemma resolution_non_negative:
  assumes "\<And>x. w = Some x \<Longrightarrow> finite_non_negative x"
    and "\<And>x. h = Some x \<Longrightarrow> finite_non_negative x"
  shows "\<forall>t \<in> set (case (w, h) of
                       (Some w, Some h) \<Rightarrow> [num_div (num_mul w h) (Num 1000)]
                     | _ \<Rightarrow> []). non_negative t"
  using assms by (cases w; cases h) (simp_all add: non_negative_num_div non_negative_num_mul)

lemma non_negative_foldl:
  "non_negative x \<Longrightarrow> \<forall>t \<in> set ts. non_negative t \<Longrightarrow> non_negative (foldl num_add x ts)"
  by (induction ts arbitrary: x) (simp_all add: non_negative_num_add)

lemma num_add_NaN_right: "num_add x NaN = NaN"
  by (cases x) simp_all

lemma num_mul_NaN_right: "num_mul x NaN = NaN"
  by (cases x) simp_all

lemma foldl_num_add_NaN: "foldl num_add NaN ts = NaN"
  by (induction ts) simp_all

lemma foldl_num_add_NaN_member: "NaN \<in> set ts \<Longrightarrow> foldl num_add x ts = NaN"
  by (induction ts arbitrary: x) (auto simp: num_add_NaN_right foldl_num_add_NaN)

text \<open>
  The model of doubles on known values: the double next to one tenth, the sum of one
  tenth and two tenths, the rounding of integers beyond \<open>2 ^ 53\<close>, white space outside
  ASCII, and the product of an infinity with zero.
\<close>

lemma to_double_examples:
  "to_double (1 / 10) = Num (3602879701896397 / 36028797018963968)"
  "to_double (2 ^ 53 + 1) = Num (2 ^ 53)"
  "to_double (2 ^ 53 + 3) = Num (2 ^ 53 + 4)"
  "num_add (to_double (1 / 10)) (to_double (2 / 10)) = Num (1351079888211149 / 4503599627370496)"
  by code_simp+

lemma parseInt_examples:
  "parseInt ''9007199254740993'' = Num 9007199254740992"
  "parseInt ([CHR 0xC2, CHR 0xA0] @ ''42'') = Num 42"
  "parseInt ([CHR 0x09, CHR 0xE2, CHR 0x80, CHR 0xA8] @ ''-0x1f'') = Num (- 31)"
  by code_simp+

lemma infinity_examples:
  "num_mul Infinity (Num 0) = NaN"
  "num_add Infinity NegInfinity = NaN"
  "num_div (num_mul Infinity (Num 0)) (Num 1000) = NaN"
  "num_div Infinity (Num 1000) = Infinity"
  by simp_all

subsection \<open>The terms of the score\<close>

lemma parseInt_Nil: "parseInt [] = NaN"
  by (simp add: parseInt_def skip_white_space.simps [of "[]"])

lemma parseInt_cases:
  obtains (nan) "parseInt v = NaN" | (number) "parseInt v \<noteq> NaN"
  by blast

lemma truthy_has_value: "truthy (map_of d k) = has_value d k"
  by (simp add: truthy_def has_value_def)

text \<open>The score is the sum, from 0, of the terms that the code does not skip.\<close>

lemma getQualityScore_terms:
  "getQualityScore d =
     foldl num_add (Num 0)
       ((if has_value d ''maxVideoBitrate''
         then [num_div (parseInt (to_string (map_of d ''maxVideoBitrate''))) (Num 1000)] else [])
        @ (if has_value d ''maxWidth'' \<and> has_value d ''maxHeight''
           then [num_div (num_mul (parseInt (to_string (map_of d ''maxWidth'')))
                            (parseInt (to_string (map_of d ''maxHeight'')))) (Num 1000)]
           else [])
        @ (if has_value d ''audioBitrate''
           then [num_div (parseInt (to_string (map_of d ''audioBitrate''))) (Num 10)] else []))"
  by (simp add: getQualityScore_def Let_def truthy_has_value)

lemma estimatedSize_term:
  "estimatedSize (getQualityMetrics d) =
     (if has_value d ''maxVideoBitrate''
      then num_div (num_mul (num_mul
             (num_div (parseInt (to_string (map_of d ''maxVideoBitrate''))) (Num 1000))
             (Num 7200)) (Num 1000)) (Num 8)
      else Num 0)"
  by (simp add: getQualityMetrics_def Let_def truthy_has_value)

text \<open>
  An attribute is without a value (absent or empty), or its value does not parse, or it
  parses to a number.
\<close>

lemma attribute_cases:
  obtains
    (none) "\<not> has_value d k" "\<not> unparseable d k" "attr_value d k = None"
  | (bad) "has_value d k" "unparseable d k" "attr_value d k = None"
      "parseInt (to_string (map_of d k)) = NaN"
  | (good) x where "has_value d k" "\<not> unparseable d k" "attr_value d k = Some x"
      "parseInt (to_string (map_of d k)) = x" "x \<noteq> NaN"
proof (cases "map_of d k")
  case None
  then show ?thesis
    using none by (simp add: has_value_def unparseable_def attr_value_def)
next
  case (Some v)
  show ?thesis
  proof (cases "v = []")
    case True
    with Some show ?thesis
      using none by (simp add: has_value_def unparseable_def attr_value_def parseInt_Nil)
  next
    case False
    show ?thesis
    proof (cases "parseInt v = NaN")
      case True
      with Some False show ?thesis
        using bad by (simp add: has_value_def unparseable_def attr_value_def to_string_def)
    next
      case nn: False
      with Some \<open>v \<noteq> []\<close> show ?thesis
        using good [of "parseInt v"]
        by (cases "parseInt v")
          (simp_all add: has_value_def unparseable_def attr_value_def to_string_def)
    qed
  qed
qed

lemma bitrate_term:
  "\<not> unparseable d k \<Longrightarrow>
   (if has_value d k then [num_div (parseInt (to_string (map_of d k))) (Num c)] else []) =
     (case attr_value d k of None \<Rightarrow> [] | Some b \<Rightarrow> [num_div b (Num c)])"
  by (cases d k rule: attribute_cases) simp_all

lemma resolution_term:
  "\<not> (has_value d kw \<and> has_value d kh \<and> (unparseable d kw \<or> unparseable d kh)) \<Longrightarrow>
   (if has_value d kw \<and> has_value d kh
    then [num_div (num_mul (parseInt (to_string (map_of d kw))) (parseInt (to_string (map_of d kh))))
            (Num 1000)]
    else []) =
     (case (attr_value d kw, attr_value d kh) of
        (Some w, Some h) \<Rightarrow> [num_div (num_mul w h) (Num 1000)]
      | _ \<Rightarrow> [])"
  by (cases d kw rule: attribute_cases; cases d kh rule: attribute_cases) simp_all

lemma getQualityScore_not_poisoned:
  assumes "\<not> score_poisoned d"
  shows "getQualityScore d = score_formula d"
proof -
  from assms have b: "\<not> unparseable d ''maxVideoBitrate''"
    and r: "\<not> (has_value d ''maxWidth'' \<and> has_value d ''maxHeight''
          \<and> (unparseable d ''maxWidth'' \<or> unparseable d ''maxHeight''))"
    and a: "\<not> unparseable d ''audioBitrate''"
    by (simp_all add: score_poisoned_def)
  show ?thesis
    unfolding getQualityScore_terms score_formula_def score_terms_def
      bitrate_term [OF b] bitrate_term [OF a] resolution_term [OF r] ..
qed

lemma unparseable_has_value:
  "unparseable d k \<Longrightarrow> has_value d k \<and> parseInt (to_string (map_of d k)) = NaN"
  by (cases d k rule: attribute_cases) simp_all

lemma getQualityScore_poisoned:
  assumes "score_poisoned d"
  shows "getQualityScore d = NaN"
proof -
  let ?ts = "(if has_value d ''maxVideoBitrate''
         then [num_div (parseInt (to_string (map_of d ''maxVideoBitrate''))) (Num 1000)] else [])
        @ (if has_value d ''maxWidth'' \<and> has_value d ''maxHeight''
           then [num_div (num_mul (parseInt (to_string (map_of d ''maxWidth'')))
                            (parseInt (to_string (map_of d ''maxHeight'')))) (Num 1000)]
           else [])
        @ (if has_value d ''audioBitrate''
           then [num_div (parseInt (to_string (map_of d ''audioBitrate''))) (Num 10)] else [])"
  from assms have "NaN \<in> set ?ts"
    unfolding score_poisoned_def
    by (auto dest!: unparseable_has_value simp: num_mul_NaN_right)
  then show ?thesis
    unfolding getQualityScore_terms by (rule foldl_num_add_NaN_member)
qed

lemma parses_not_unparseable: "parses d k \<Longrightarrow> \<not> unparseable d k"
  by (auto simp: parses_def unparseable_def split: option.splits)


lemma num_div_not_NaN: "x \<noteq> NaN \<Longrightarrow> c \<noteq> 0 \<Longrightarrow> num_div x (Num c) \<noteq> NaN"
  by (cases x) (simp_all add: to_double_not_NaN)

lemma num_mul_not_NaN: "x \<noteq> NaN \<Longrightarrow> c \<noteq> 0 \<Longrightarrow> num_mul x (Num c) \<noteq> NaN"
  by (cases x) (simp_all add: to_double_not_NaN)

text \<open>
  C2, as amended. The score and the metrics are computed without an exception for every
  descriptor. A non-empty value that does not parse makes its term \<open>NaN\<close>, and with it
  the whole score: the score is \<open>NaN\<close> whenever a term that it includes has such a
  value. Otherwise the score is the sum of the terms whose attributes have a number, an
  attribute that is absent or empty adding nothing. The estimated size is \<open>NaN\<close>
  exactly when the maximal video bitrate has a non-empty value that does not parse, and 0
  when it is absent or empty.
\<close>

theorem getQualityScore_unparseable:
  "(score_poisoned d \<longrightarrow> getQualityScore d = NaN) \<and>
   (\<not> score_poisoned d \<longrightarrow> getQualityScore d = score_formula d) \<and>
   (estimatedSize (getQualityMetrics d) = NaN) = unparseable d ''maxVideoBitrate'' \<and>
   (\<not> has_value d ''maxVideoBitrate'' \<longrightarrow> estimatedSize (getQualityMetrics d) = Num 0)"
proof (intro conjI impI)
  show "getQualityScore d = NaN" if "score_poisoned d"
    using that by (rule getQualityScore_poisoned)
  show "getQualityScore d = score_formula d" if "\<not> score_poisoned d"
    using that by (rule getQualityScore_not_poisoned)
  show "(estimatedSize (getQualityMetrics d) = NaN) = unparseable d ''maxVideoBitrate''"
    unfolding estimatedSize_term
    by (cases d "''maxVideoBitrate''" rule: attribute_cases)
      (simp_all add: num_div_not_NaN num_mul_not_NaN)
  show "estimatedSize (getQualityMetrics d) = Num 0" if "\<not> has_value d ''maxVideoBitrate''"
    using that by (simp add: estimatedSize_term)
qed

theorem getQualityScore_unparseable_witness:
  "score_poisoned [(''maxVideoBitrate'', ''fast''), (''audioBitrate'', ''1280'')] \<and>
   getQualityScore [(''maxVideoBitrate'', ''fast''), (''audioBitrate'', ''1280'')] = NaN \<and>
   \<not> score_poisoned [(''maxVideoBitrate'', []), (''audioBitrate'', ''1280'')] \<and>
   getQualityScore [(''maxVideoBitrate'', []), (''audioBitrate'', ''1280'')] = Num 128 \<and>
   \<not> has_value [(''maxVideoBitrate'', []), (''audioBitrate'', ''1280'')] ''maxVideoBitrate'' \<and>
   estimatedSize (getQualityMetrics [(''maxVideoBitrate'', []), (''audioBitrate'', ''1280'')]) = Num 0"
proof -
  let ?bad = "[(''maxVideoBitrate'', ''fast''), (''audioBitrate'', ''1280'')]"
  let ?empty = "[(''maxVideoBitrate'', []), (''audioBitrate'', ''1280'')]"
  have 1: "score_poisoned ?bad"
    by code_simp
  have 2: "\<not> score_poisoned ?empty"
    by code_simp
  have 3: "score_formula ?empty = Num 128"
    by code_simp
  have 4: "\<not> has_value ?empty ''maxVideoBitrate''"
    by code_simp
  from 1 getQualityScore_unparseable [of ?bad] have a: "getQualityScore ?bad = NaN"
    by blast
  from 2 getQualityScore_unparseable [of ?empty] have "getQualityScore ?empty = score_formula ?empty"
    by blast
  with 3 have b: "getQualityScore ?empty = Num 128"
    by simp
  from 4 getQualityScore_unparseable [of ?empty]
  have c: "estimatedSize (getQualityMetrics ?empty) = Num 0"
    by blast
  from 1 a 2 b 4 c show ?thesis by blast
qed

theorem getQualityScore_unparseable_counterexample:
  "parseInt ''abc'' = NaN \<and>
   getQualityScore [(''maxVideoBitrate'', ''abc''), (''audioBitrate'', ''1280'')] = NaN \<and>
   estimatedSize (getQualityMetrics [(''maxVideoBitrate'', ''abc''), (''audioBitrate'', ''1280'')]) = NaN"
  by code_simp

text \<open>
  C7, as amended. When every numeric attribute that is present parses as an integer, the
  score is the sum of the maximal video bitrate divided by 1000, of the product of width
  and height divided by 1000 and of the audio bitrate divided by 10, in the arithmetic of
  doubles, a term being left out when its attribute is absent. The score is not negative
  when every parsed value is finite and not negative: a value with a minus sign parses to
  a negative integer, and an integer of more than 308 digits parses to \<open>Infinity\<close>,
  whose product with 0 is \<open>NaN\<close>. For a maximal video bitrate of 8000000, a width of
  1920, a height of 1080 and no audio bitrate the score is the double 10073.6.
\<close>

theorem getQualityScore_formula:
  assumes "parses d ''maxVideoBitrate''" and "parses d ''maxWidth''"
    and "parses d ''maxHeight''" and "parses d ''audioBitrate''"
  shows "getQualityScore d = score_formula d \<and>
    ((\<forall>k \<in> {''maxVideoBitrate'', ''maxWidth'', ''maxHeight'', ''audioBitrate''}.
        \<forall>x. attr_value d k = Some x \<longrightarrow> finite_non_negative x)
       \<longrightarrow> non_negative (getQualityScore d)) \<and>
    (map_of d ''maxVideoBitrate'' = Some ''8000000'' \<and> map_of d ''maxWidth'' = Some ''1920'' \<and>
     map_of d ''maxHeight'' = Some ''1080'' \<and> map_of d ''audioBitrate'' = None
       \<longrightarrow> getQualityScore d = to_double 10073.6)"
proof (intro conjI impI)
  from assms have "\<not> score_poisoned d"
    by (simp add: score_poisoned_def parses_not_unparseable)
  then show score: "getQualityScore d = score_formula d"
    by (rule getQualityScore_not_poisoned)
  {
    assume fin: "\<forall>k \<in> {''maxVideoBitrate'', ''maxWidth'', ''maxHeight'', ''audioBitrate''}.
        \<forall>x. attr_value d k = Some x \<longrightarrow> finite_non_negative x"
    have "\<forall>t \<in> set (score_terms d). non_negative t"
      unfolding score_terms_def set_append ball_Un
      using fin by (intro conjI term_non_negative resolution_non_negative) simp_all
    then have "non_negative (foldl num_add (Num 0) (score_terms d))"
      by (intro non_negative_foldl) (simp_all add: non_negative_simps)
    with score show "non_negative (getQualityScore d)"
      by (simp add: score_formula_def)
  }
  {
    assume ex: "map_of d ''maxVideoBitrate'' = Some ''8000000'' \<and> map_of d ''maxWidth'' = Some ''1920'' \<and>
       map_of d ''maxHeight'' = Some ''1080'' \<and> map_of d ''audioBitrate'' = None"
    have p: "parseInt ''8000000'' = Num 8000000" "parseInt ''1920'' = Num 1920"
      "parseInt ''1080'' = Num 1080"
      by code_simp+
    have sum: "foldl num_add (Num 0)
        [num_div (Num 8000000) (Num 1000), num_div (num_mul (Num 1920) (Num 1080)) (Num 1000)]
        = to_double 10073.6"
      by code_simp
    from ex p have "score_terms d =
        [num_div (Num 8000000) (Num 1000), num_div (num_mul (Num 1920) (Num 1080)) (Num 1000)]"
      by (simp add: score_terms_def attr_value_def)
    with sum have "score_formula d = to_double 10073.6"
      by (simp only: score_formula_def)
    with score show "getQualityScore d = to_double 10073.6"
      by simp
  }
qed

theorem getQualityScore_formula_witness:
  "parses [(''maxVideoBitrate'', ''8000000''), (''maxWidth'', ''1920''), (''maxHeight'', ''1080'')]
     ''maxVideoBitrate'' \<and>
   parses [(''maxVideoBitrate'', ''8000000''), (''maxWidth'', ''1920''), (''maxHeight'', ''1080'')]
     ''maxWidth'' \<and>
   parses [(''maxVideoBitrate'', ''8000000''), (''maxWidth'', ''1920''), (''maxHeight'', ''1080'')]
     ''maxHeight'' \<and>
   parses [(''maxVideoBitrate'', ''8000000''), (''maxWidth'', ''1920''), (''maxHeight'', ''1080'')]
     ''audioBitrate'' \<and>
   getQualityScore [(''maxVideoBitrate'', ''8000000''), (''maxWidth'', ''1920''), (''maxHeight'', ''1080'')]
     = to_double 10073.6 \<and>
   to_double 10073.6 = Num (5538020166782157 / 549755813888)"
proof -
  let ?d = "[(''maxVideoBitrate'', ''8000000''), (''maxWidth'', ''1920''), (''maxHeight'', ''1080'')]"
  have 1: "parses ?d ''maxVideoBitrate''" by code_simp
  have 2: "parses ?d ''maxWidth''" by code_simp
  have 3: "parses ?d ''maxHeight''" by code_simp
  have 4: "parses ?d ''audioBitrate''" by code_simp
  have m: "map_of ?d ''maxVideoBitrate'' = Some ''8000000'' \<and> map_of ?d ''maxWidth'' = Some ''1920'' \<and>
     map_of ?d ''maxHeight'' = Some ''1080'' \<and> map_of ?d ''audioBitrate'' = None"
    by simp
  have v: "to_double 10073.6 = Num (5538020166782157 / 549755813888)"
    by code_simp
  from getQualityScore_formula [OF 1 2 3 4] m have "getQualityScore ?d = to_double 10073.6"
    by blast
  with 1 2 3 4 v show ?thesis by blast
qed

theorem getQualityScore_formula_counterexample:
  "parses [(''maxVideoBitrate'', ''-1000'')] ''maxVideoBitrate'' \<and>
   parses [(''maxVideoBitrate'', ''-1000'')] ''maxWidth'' \<and>
   parses [(''maxVideoBitrate'', ''-1000'')] ''maxHeight'' \<and>
   parses [(''maxVideoBitrate'', ''-1000'')] ''audioBitrate'' \<and>
   getQualityScore [(''maxVideoBitrate'', ''-1000'')] = Num (- 1)"
  by code_simp

text \<open>
  C8. The estimated size is 0 when the maximal video bitrate is absent; when its value
  parses as an integer, it is that integer divided by 1000, times 7200, times 1000,
  divided by 8, in the arithmetic of doubles; for the value 8000000 it is 7200000000.
\<close>

theorem getQualityMetrics_estimatedSize:
  "(map_of d ''maxVideoBitrate'' = None \<longrightarrow> estimatedSize (getQualityMetrics d) = Num 0) \<and>
   (\<forall>v n. map_of d ''maxVideoBitrate'' = Some v \<and> parseInt v = Num n
      \<longrightarrow> estimatedSize (getQualityMetrics d) =
            num_div (num_mul (num_mul (num_div (Num n) (Num 1000)) (Num 7200)) (Num 1000)) (Num 8)) \<and>
   (map_of d ''maxVideoBitrate'' = Some ''8000000''
      \<longrightarrow> estimatedSize (getQualityMetrics d) = Num 7200000000)"
proof -
  have general: "estimatedSize (getQualityMetrics d) =
      num_div (num_mul (num_mul (num_div (Num n) (Num 1000)) (Num 7200)) (Num 1000)) (Num 8)"
    if "map_of d ''maxVideoBitrate'' = Some v" and "parseInt v = Num n" for v n
  proof -
    from that have "v \<noteq> []"
      by (auto simp: parseInt_Nil)
    with that show ?thesis
      by (simp add: estimatedSize_term has_value_def to_string_def)
  qed
  have p: "parseInt ''8000000'' = Num 8000000"
    by code_simp
  have e: "num_div (num_mul (num_mul (num_div (Num 8000000) (Num 1000)) (Num 7200)) (Num 1000)) (Num 8)
      = Num 7200000000"
    by code_simp
  have example: "estimatedSize (getQualityMetrics d) = Num 7200000000"
    if "map_of d ''maxVideoBitrate'' = Some ''8000000''"
    using general [OF that p] e by simp
  have absent: "estimatedSize (getQualityMetrics d) = Num 0"
    if "map_of d ''maxVideoBitrate'' = None"
    using that by (simp add: estimatedSize_term has_value_def)
  from general example absent show ?thesis
    by blast
qed

theorem getQualityMetrics_estimatedSize_witness:
  "map_of [(''maxVideoBitrate'', ''8000000''), (''videoCodec'', ''h264'')] ''maxVideoBitrate''
     = Some ''8000000'' \<and>
   estimatedSize (getQualityMetrics [(''maxVideoBitrate'', ''8000000''), (''videoCodec'', ''h264'')])
     = Num 7200000000 \<and>
   map_of [(''videoCodec'', ''h264'')] ''maxVideoBitrate'' = None \<and>
   estimatedSize (getQualityMetrics [(''videoCodec'', ''h264'')]) = Num 0"
proof -
  let ?d = "[(''maxVideoBitrate'', ''8000000''), (''videoCodec'', ''h264'')]"
  let ?e = "[(''videoCodec'', ''h264'')]"
  have 1: "map_of ?d ''maxVideoBitrate'' = Some ''8000000''" by simp
  have 2: "map_of ?e ''maxVideoBitrate'' = None" by simp
  from 1 getQualityMetrics_estimatedSize [of ?d]
  have a: "estimatedSize (getQualityMetrics ?d) = Num 7200000000"
    by blast
  from 2 getQualityMetrics_estimatedSize [of ?e]
  have b: "estimatedSize (getQualityMetrics ?e) = Num 0"
    by blast
  from 1 a 2 b show ?thesis by simp
qed

section \<open>Properties of the description\<close>

















end
